theory Spec2Isabelle
  imports Complex_Main
begin

section \<open>Values of the places service\<close>

text \<open>
  The service (\<^verbatim>\<open>placesService\<close>, the second half of \<^verbatim>\<open>src/unnamed/part_002\<close>) and the
  directions page (\<^verbatim>\<open>src/unnamed/part_001\<close>) are JavaScript. Conventions of the embedding:
  \<^item> a JavaScript number is a \<^typ>\<open>real\<close> (rounding of IEEE doubles is not modelled);
  \<^item> a JavaScript string is a \<^typ>\<open>string\<close>, one \<^typ>\<open>char\<close> per UTF-16 code unit
    (code units below 256); the emoji of the category table need larger code units and
    are kept as lists of code units (\<^typ>\<open>nat list\<close>);
  \<^item> a missing property (\<^verbatim>\<open>undefined\<close>) is \<^const>\<open>None\<close>; so is \<^verbatim>\<open>null\<close> where the source
    only tests a value for truthiness; where the source prints a value, \<^verbatim>\<open>null\<close> is
    outside the model;
  \<^item> an object used as a dictionary is an association list (key order is insertion
    order, as \<^verbatim>\<open>Object.keys\<close> and \<^verbatim>\<open>Object.entries\<close> give it) or a map.
\<close>

record category_def =
  cat_name :: string
  cat_icon :: "nat list"
  cat_tags :: "string list"

definition PLACE_CATEGORIES :: "(string \<times> category_def) list" where
  "PLACE_CATEGORIES =
   [(''restaurant'', \<lparr>cat_name = ''Restaurants & Food'', cat_icon = [55356, 57213, 65039],
       cat_tags = [''amenity=restaurant'', ''amenity=fast_food'', ''cuisine=indian'']\<rparr>),
    (''cafe'', \<lparr>cat_name = ''Cafes & Tea Stalls'', cat_icon = [9749],
       cat_tags = [''amenity=cafe'', ''shop=tea'']\<rparr>),
    (''lodging'', \<lparr>cat_name = ''Hotels & Lodging'', cat_icon = [55356, 57320],
       cat_tags = [''tourism=hotel'', ''tourism=guest_house'']\<rparr>),
    (''gas_station'', \<lparr>cat_name = ''Petrol Pumps'', cat_icon = [9981],
       cat_tags = [''amenity=fuel'']\<rparr>),
    (''shopping'', \<lparr>cat_name = ''Shopping & Markets'', cat_icon = [55357, 57037, 65039],
       cat_tags = [''shop=supermarket'', ''shop=convenience'', ''amenity=marketplace'']\<rparr>),
    (''hospital'', \<lparr>cat_name = ''Healthcare & Pharmacy'', cat_icon = [55356, 57317],
       cat_tags = [''amenity=hospital'', ''amenity=pharmacy'', ''amenity=clinic'']\<rparr>),
    (''bank'', \<lparr>cat_name = ''Banks & ATMs'', cat_icon = [55356, 57318],
       cat_tags = [''amenity=bank'', ''amenity=atm'']\<rparr>),
    (''transport'', \<lparr>cat_name = ''Transportation'', cat_icon = [55357, 56972],
       cat_tags = [''amenity=bus_station'', ''railway=station'', ''public_transport=station'']\<rparr>),
    (''entertainment'', \<lparr>cat_name = ''Parks & Attractions'', cat_icon = [55356, 57260],
       cat_tags = [''leisure=park'', ''tourism=attraction'', ''amenity=cinema'']\<rparr>),
    (''education'', \<lparr>cat_name = ''Schools & Colleges'', cat_icon = [55356, 57235],
       cat_tags = [''amenity=school'', ''amenity=college'', ''amenity=university'']\<rparr>),
    (''religious'', \<lparr>cat_name = ''Temples & Religious'', cat_icon = [55357, 56649, 65039],
       cat_tags = [''amenity=place_of_worship'', ''building=temple'']\<rparr>),
    (''government'', \<lparr>cat_name = ''Government Offices'', cat_icon = [55356, 57307, 65039],
       cat_tags = [''office=government'', ''amenity=townhall'', ''office=administrative'']\<rparr>),
    (''automotive'', \<lparr>cat_name = ''Auto Services'', cat_icon = [55357, 56615],
       cat_tags = [''shop=car_repair'', ''amenity=car_wash'', ''shop=car'']\<rparr>),
    (''beauty'', \<lparr>cat_name = ''Salons & Spas'', cat_icon = [55357, 56452],
       cat_tags = [''shop=hairdresser'', ''shop=beauty'', ''leisure=spa'']\<rparr>),
    (''electronics'', \<lparr>cat_name = ''Electronics & Mobile'', cat_icon = [55357, 56561],
       cat_tags = [''shop=electronics'', ''shop=mobile_phone'', ''shop=computer'']\<rparr>),
    (''clothing'', \<lparr>cat_name = ''Clothing & Textiles'', cat_icon = [55357, 56405],
       cat_tags = [''shop=clothes'', ''shop=tailor'', ''shop=fabric'']\<rparr>),
    (''grocery'', \<lparr>cat_name = ''Grocery & Provisions'', cat_icon = [55357, 57042],
       cat_tags = [''shop=grocery'', ''shop=general'', ''shop=convenience'']\<rparr>),
    (''medical'', \<lparr>cat_name = ''Medical & Dental'', cat_icon = [9877, 65039],
       cat_tags = [''amenity=doctors'', ''amenity=dentist'', ''healthcare=clinic'']\<rparr>),
    (''sports'', \<lparr>cat_name = ''Sports & Fitness'', cat_icon = [9917],
       cat_tags = [''leisure=sports_centre'', ''leisure=fitness_centre'', ''sport=cricket'']\<rparr>)]"

text \<open>\<^verbatim>\<open>Object.keys(PLACE_CATEGORIES)\<close>.\<close>

definition category_keys :: "string list" where
  "category_keys = map fst PLACE_CATEGORIES"

text \<open>
  A place object. The three producers (\<^verbatim>\<open>fetchRealPlacesFromOverpass\<close>,
  \<^verbatim>\<open>generateRealisticPlacesForCategory\<close>, \<^verbatim>\<open>generateEnhancedMockData\<close>) set different
  subsets of the properties; a property an object does not have is \<^const>\<open>None\<close>.
  The field \<open>ptype\<close> is the property \<^verbatim>\<open>type\<close> (\<^verbatim>\<open>'osm'\<close>, \<^verbatim>\<open>'verified_mock'\<close> or
  \<^verbatim>\<open>'mock'\<close>), \<open>place_id\<close> the property \<^verbatim>\<open>id\<close>.
\<close>

record place =
  place_id :: string
  name :: string
  category :: string
  categoryName :: string
  icon :: "nat list"
  lat :: real
  lng :: real
  distance :: real
  address :: string
  phone :: "string option"
  website :: "string option"
  opening_hours :: "string option"
  rating :: real
  ptype :: string
  osm_id :: "int option"
  osm_type :: "string option"
  tags :: "(string \<times> string) list"
  verified :: bool
  isPopular :: "bool option"
  city :: "string option"
  state :: "string option"
  country :: "string option"

section \<open>Merging live and synthetic places\<close>

text \<open>
  The test of the \<^verbatim>\<open>filter\<close> callback in \<^verbatim>\<open>mergeRealAndMockData\<close>:
  \<^verbatim>\<open>Math.abs(realPlace.lat - mockPlace.lat) < 0.002 && Math.abs(realPlace.lng - mockPlace.lng) < 0.002\<close>.
\<close>

definition near_dup :: "place \<Rightarrow> place \<Rightarrow> bool" where
  "near_dup realPlace mockPlace \<longleftrightarrow>
     \<bar>lat realPlace - lat mockPlace\<bar> < 0.002 \<and> \<bar>lng realPlace - lng mockPlace\<bar> < 0.002"

text \<open>
  The body of the \<^verbatim>\<open>forEach\<close> of \<^verbatim>\<open>mergeRealAndMockData\<close> for one category.
  \<^verbatim>\<open>Array.prototype.sort\<close> is stable, as \<^const>\<open>sort_key\<close> is.
\<close>

definition merge_category :: "place list \<Rightarrow> place list \<Rightarrow> place list" where
  "merge_category realPlaces mockPlaces =
     (let combined = realPlaces;
          targetMinimum = (6::nat);
          combined =
            (if length combined < targetMinimum then
               let needed = targetMinimum - length combined;
                   additionalMock =
                     take needed
                       (filter (\<lambda>mockPlace. \<not> list_ex (\<lambda>realPlace. near_dup realPlace mockPlace) combined)
                          mockPlaces)
               in combined @ additionalMock
             else combined);
          combined = (if length combined = 0 then mockPlaces else combined)
      in take 10 (sort_key distance combined))"

text \<open>\<^verbatim>\<open>obj[categoryKey] || []\<close>.\<close>

definition or_empty :: "'a list option \<Rightarrow> 'a list" where
  "or_empty v = (case v of None \<Rightarrow> [] | Some xs \<Rightarrow> xs)"

definition mergeRealAndMockData ::
  "(string \<rightharpoonup> place list) \<Rightarrow> (string \<rightharpoonup> place list) \<Rightarrow> (string \<times> place list) list" where
  "mergeRealAndMockData realData mockData =
     map (\<lambda>categoryKey.
            (categoryKey, merge_category (or_empty (realData categoryKey)) (or_empty (mockData categoryKey))))
       category_keys"

section \<open>Built-ins of the language\<close>

text \<open>
  \<^verbatim>\<open>String.prototype.split\<close> with a one-character separator: the pieces between the
  separators, never the empty list.
\<close>

fun split_on :: "char \<Rightarrow> string \<Rightarrow> string list" where
  "split_on c [] = [[]]"
| "split_on c (x # xs) =
     (if x = c then [] # split_on c xs
      else (case split_on c xs of [] \<Rightarrow> [[x]] | p # ps \<Rightarrow> (x # p) # ps))"

text \<open>\<^verbatim>\<open>arr[i]\<close>: \<^verbatim>\<open>undefined\<close> outside the array.\<close>

fun nth_opt :: "'a list \<Rightarrow> nat \<Rightarrow> 'a option" where
  "nth_opt [] n = None"
| "nth_opt (x # xs) 0 = Some x"
| "nth_opt (x # xs) (Suc n) = nth_opt xs n"

text \<open>\<^verbatim>\<open>String.prototype.startsWith\<close> and \<^verbatim>\<open>String.prototype.includes\<close>.\<close>

definition startsWith :: "string \<Rightarrow> string \<Rightarrow> bool" where
  "startsWith s p \<longleftrightarrow> take (length p) s = p"

fun str_includes :: "string \<Rightarrow> string \<Rightarrow> bool" where
  "str_includes [] p = (p = [])"
| "str_includes (x # xs) p = (startsWith (x # xs) p \<or> str_includes xs p)"

text \<open>Truthiness of a string-valued property: present and not the empty string.\<close>

definition truthy_str :: "string option \<Rightarrow> bool" where
  "truthy_str v = (case v of None \<Rightarrow> False | Some s \<Rightarrow> s \<noteq> [])"

text \<open>Truthiness of a number-valued property: present and not zero.\<close>

definition truthy_num :: "real option \<Rightarrow> bool" where
  "truthy_num v = (case v of None \<Rightarrow> False | Some x \<Rightarrow> x \<noteq> 0)"

text \<open>The string held by a property that has passed the truthiness test.\<close>

definition or_blank :: "string option \<Rightarrow> string" where
  "or_blank v = (case v of None \<Rightarrow> [] | Some s \<Rightarrow> s)"

text \<open>\<^verbatim>\<open>a || b\<close> on string-valued properties.\<close>

definition or_str :: "string option \<Rightarrow> string option \<Rightarrow> string option" where
  "or_str a b = (if truthy_str a then a else b)"

text \<open>Decimal digits of an integer, as template literals print integral numbers.\<close>

fun show_nat :: "nat \<Rightarrow> string" where
  "show_nat n =
     (if n < 10 then [char_of (48 + n)] else show_nat (n div 10) @ [char_of (48 + n mod 10)])"

definition show_int :: "int \<Rightarrow> string" where
  "show_int i = (if i < 0 then CHR ''-'' # show_nat (nat (- i)) else show_nat (nat i))"

text \<open>\<^verbatim>\<open>Math.round\<close> rounds to the nearest integer, halves upwards.\<close>

definition Math_round :: "real \<Rightarrow> int" where
  "Math_round x = \<lfloor>x + 1 / 2\<rfloor>"

text \<open>
  \<^verbatim>\<open>Number.prototype.toFixed(f)\<close>: the decimal numeral with \<open>f\<close> fraction digits of the
  integer \<open>n\<close> for which \<open>n / 10^f\<close> is nearest to the magnitude (the larger \<open>n\<close> on a tie),
  behind the sign of a negative number. (Magnitudes of \<open>10^21\<close> and more print in
  exponent notation in the language; not modelled.)
\<close>

definition pad_zeros :: "nat \<Rightarrow> string \<Rightarrow> string" where
  "pad_zeros f s = replicate (f - length s) CHR ''0'' @ s"

definition toFixed :: "nat \<Rightarrow> real \<Rightarrow> string" where
  "toFixed f x =
     (let n = nat \<lfloor>\<bar>x\<bar> * 10 ^ f + 1 / 2\<rfloor>;
          whole = show_nat (n div 10 ^ f);
          frac = pad_zeros f (show_nat (n mod 10 ^ f))
      in (if x < 0 then ''-'' else []) @ whole @ (if f = 0 then [] else ''.'' @ frac))"

text \<open>
  \<^verbatim>\<open>Math.atan2(y, x)\<close>: the angle of the point \<open>(x, y)\<close> in \<open>(-\<pi>, \<pi>]\<close>, \<open>0\<close> at
  the origin.
\<close>

definition atan2 :: "real \<Rightarrow> real \<Rightarrow> real" where
  "atan2 y x =
     (if 0 < x then arctan (y / x)
      else if x < 0 \<and> 0 \<le> y then arctan (y / x) + pi
      else if x < 0 \<and> y < 0 then arctan (y / x) - pi
      else if 0 < y then pi / 2
      else if y < 0 then - (pi / 2)
      else 0)"

text \<open>
  The names every object literal inherits from \<^verbatim>\<open>Object.prototype\<close>. A property read
  \<^verbatim>\<open>dict[k]\<close> on a literal used as a dictionary finds them when \<open>k\<close> is not a key of the
  literal; each is a function or an object, hence truthy and not a string.
\<close>

definition object_prototype_names :: "string list" where
  "object_prototype_names =
     [''constructor'', ''__defineGetter__'', ''__defineSetter__'', ''hasOwnProperty'',
      ''__lookupGetter__'', ''__lookupSetter__'', ''isPrototypeOf'', ''propertyIsEnumerable'',
      ''toString'', ''valueOf'', ''__proto__'', ''toLocaleString'']"

text \<open>
  The built-ins whose result is not computed here, taken as parameters:
  \<^verbatim>\<open>encodeURIComponent\<close>, the conversion of a (non-integral) number to a string in a
  template literal, and \<^verbatim>\<open>parseFloat\<close> (\<^const>\<open>None\<close> for \<^verbatim>\<open>NaN\<close>).
\<close>

record runtime =
  encodeURIComponent :: "string \<Rightarrow> string"
  num_to_string :: "real \<Rightarrow> string"
  parseFloat :: "string \<Rightarrow> real option"

text \<open>Exceptions, by constructor and message.\<close>

datatype js_error = Error string | TypeError string | SyntaxError string | AbortError string

section \<open>Categorising a raw element\<close>

text \<open>
  What \<^verbatim>\<open>determineCategoryFromTags\<close> returns when it does not return \<^verbatim>\<open>null\<close>: a
  category key, or a member of \<^verbatim>\<open>Object.prototype\<close> read through a fallback dictionary.
\<close>

datatype category_result = Category string | Inherited string

text \<open>\<^verbatim>\<open>dict[k]\<close> on an object literal whose own values are non-empty strings.\<close>

definition dict_get :: "(string \<times> string) list \<Rightarrow> string \<Rightarrow> category_result option" where
  "dict_get dict k =
     (case map_of dict k of
        Some v \<Rightarrow> Some (Category v)
      | None \<Rightarrow> if k \<in> set object_prototype_names then Some (Inherited k) else None)"

definition amenityMappings :: "(string \<times> string) list" where
  "amenityMappings =
     [(''restaurant'', ''restaurant''), (''fast_food'', ''restaurant''), (''cafe'', ''cafe''),
      (''fuel'', ''gas_station''), (''hospital'', ''hospital''), (''pharmacy'', ''hospital''),
      (''clinic'', ''hospital''), (''bank'', ''bank''), (''atm'', ''bank''),
      (''school'', ''education''), (''college'', ''education''), (''university'', ''education''),
      (''place_of_worship'', ''religious''), (''cinema'', ''entertainment''),
      (''theatre'', ''entertainment'')]"

definition shopMappings :: "(string \<times> string) list" where
  "shopMappings =
     [(''supermarket'', ''shopping''), (''convenience'', ''shopping''), (''mall'', ''shopping''),
      (''clothes'', ''clothing''), (''electronics'', ''electronics''),
      (''mobile_phone'', ''electronics''), (''car_repair'', ''automotive''),
      (''hairdresser'', ''beauty''), (''beauty'', ''beauty'')]"

definition tourismMappings :: "(string \<times> string) list" where
  "tourismMappings =
     [(''hotel'', ''lodging''), (''guest_house'', ''lodging''), (''hostel'', ''lodging''),
      (''attraction'', ''entertainment'')]"

text \<open>
  The test of the inner loop: \<^verbatim>\<open>const [key, value] = tag.split('='); tags[key] === value\<close>.
  The tags of an element are an association list holding each key once; the keys of the
  category table are not names of \<^verbatim>\<open>Object.prototype\<close>.
\<close>

definition tag_matches :: "(string \<times> string) list \<Rightarrow> string \<Rightarrow> bool" where
  "tag_matches tgs tag =
     (case split_on CHR ''='' tag of
        [] \<Rightarrow> False
      | key # rest \<Rightarrow> map_of tgs key = nth_opt rest 0)"

definition determineCategoryFromTags :: "(string \<times> string) list option \<Rightarrow> category_result option" where
  "determineCategoryFromTags tags_opt =
     (case tags_opt of
        None \<Rightarrow> None
      | Some tgs \<Rightarrow>
          (case find (\<lambda>(categoryKey, cat). list_ex (tag_matches tgs) (cat_tags cat)) PLACE_CATEGORIES of
             Some (categoryKey, cat) \<Rightarrow> Some (Category categoryKey)
           | None \<Rightarrow>
               (case (if truthy_str (map_of tgs ''amenity'')
                      then dict_get amenityMappings (or_blank (map_of tgs ''amenity'')) else None) of
                  Some r \<Rightarrow> Some r
                | None \<Rightarrow>
                    if truthy_str (map_of tgs ''shop'') then
                      (case dict_get shopMappings (or_blank (map_of tgs ''shop'')) of
                         Some r \<Rightarrow> Some r
                       | None \<Rightarrow> Some (Category ''shopping''))
                    else if truthy_str (map_of tgs ''tourism'') then
                      dict_get tourismMappings (or_blank (map_of tgs ''tourism''))
                    else None)))"

text \<open>
  The rules of the aggregator, as its description names them: an exact \<open>key=value\<close> match
  against the category table, or an entry of one of the three fallback dictionaries.
\<close>

definition matches_exact_rule :: "(string \<times> string) list \<Rightarrow> bool" where
  "matches_exact_rule tgs \<longleftrightarrow>
     list_ex (\<lambda>(categoryKey, cat). list_ex (tag_matches tgs) (cat_tags cat)) PLACE_CATEGORIES"

definition has_entry :: "(string \<times> string) list \<Rightarrow> string option \<Rightarrow> bool" where
  "has_entry dict v = (case v of None \<Rightarrow> False | Some s \<Rightarrow> s \<in> set (map fst dict))"

definition matches_fallback_rule :: "(string \<times> string) list \<Rightarrow> bool" where
  "matches_fallback_rule tgs \<longleftrightarrow>
     has_entry amenityMappings (map_of tgs ''amenity'') \<or>
     has_entry shopMappings (map_of tgs ''shop'') \<or>
     has_entry tourismMappings (map_of tgs ''tourism'')"

definition matches_some_rule :: "(string \<times> string) list \<Rightarrow> bool" where
  "matches_some_rule tgs \<longleftrightarrow> matches_exact_rule tgs \<or> matches_fallback_rule tgs"

text \<open>No value of the three fallback keys is a name inherited from \<^verbatim>\<open>Object.prototype\<close>.\<close>

definition plain_values :: "(string \<times> string) list \<Rightarrow> bool" where
  "plain_values tgs \<longleftrightarrow>
     list_all (\<lambda>k. case map_of tgs k of None \<Rightarrow> True | Some v \<Rightarrow> v \<notin> set object_prototype_names)
       [''amenity'', ''shop'', ''tourism'']"

section \<open>Geometry\<close>

text \<open>
  \<^verbatim>\<open>calculateDistance\<close>, the Haversine formula with an Earth radius of 6371 km, over the
  reals. Over the reals \<open>a\<close> stays in \<open>[0, 1]\<close> for latitudes in \<open>[-90, 90]\<close>. In the
  doubles of the source, rounding can carry \<open>a\<close> above 1 at antipodal points, where
  \<^verbatim>\<open>Math.sqrt(1 - a)\<close> and the distance are \<^verbatim>\<open>NaN\<close>; the real-valued formula does not
  show this, and nothing below rests on the value of a distance.
\<close>

definition calculateDistance :: "real \<Rightarrow> real \<Rightarrow> real \<Rightarrow> real \<Rightarrow> real" where
  "calculateDistance lat1 lng1 lat2 lng2 =
     (let R = 6371;
          dLat = (lat2 - lat1) * pi / 180;
          dLng = (lng2 - lng1) * pi / 180;
          a = sin (dLat / 2) * sin (dLat / 2) +
              cos (lat1 * pi / 180) * cos (lat2 * pi / 180) *
              sin (dLng / 2) * sin (dLng / 2);
          c = 2 * atan2 (sqrt a) (sqrt (1 - a))
      in R * c)"

section \<open>The network\<close>

text \<open>
  A request of \<^verbatim>\<open>fetch\<close> and what becomes of it: the promise rejects (no connection,
  abort), or it resolves with a response that has the flag \<^verbatim>\<open>ok\<close>, a status and a body;
  the body is \<^const>\<open>None\<close> where \<^verbatim>\<open>response.json()\<close> rejects. The network is a function
  from requests to replies, a parameter of every operation that fetches; each operation
  returns the requests it has issued, in order, beside its result.
\<close>

record request =
  req_url :: string
  req_method :: string
  req_headers :: "(string \<times> string) list"
  req_body :: "string option"

datatype 'a reply = Rejected js_error | Response bool nat "'a option"

definition NOMINATIM_BASE_URL :: string where
  "NOMINATIM_BASE_URL = ''https://nominatim.openstreetmap.org''"

definition OVERPASS_SERVERS :: "string list" where
  "OVERPASS_SERVERS =
     [''https://overpass-api.de/api/interpreter'',
      ''https://overpass.kumi.systems/api/interpreter'',
      ''https://overpass.openstreetmap.ru/api/interpreter'']"

definition user_agent :: "(string \<times> string) list" where
  "user_agent = [(''User-Agent'', ''PlacesFinder/1.0 (Educational Project)'')]"

definition GET :: "string \<Rightarrow> (string \<times> string) list \<Rightarrow> request" where
  "GET url headers = \<lparr>req_url = url, req_method = ''GET'', req_headers = headers, req_body = None\<rparr>"

text \<open>
  \<^verbatim>\<open>${v}\<close> for a string-valued property that may be missing (\<^verbatim>\<open>undefined\<close>; a
  property that is \<^verbatim>\<open>null\<close> prints as \<^verbatim>\<open>null\<close> and is outside the model).
\<close>

definition show_str :: "string option \<Rightarrow> string" where
  "show_str v = (case v of None \<Rightarrow> ''undefined'' | Some s \<Rightarrow> s)"

section \<open>Location acquisition\<close>

record browser =
  has_geolocation :: bool
  protocol :: string
  hostname :: string

record support =
  supported :: bool
  issues :: "string list"

definition checkLocationSupport :: "browser \<Rightarrow> support" where
  "checkLocationSupport env =
     (let issues = [];
          issues = (if \<not> has_geolocation env then issues @ [''Geolocation API not supported'']
                    else issues);
          issues = (if protocol env \<noteq> ''https:'' \<and> hostname env \<noteq> ''localhost''
                    then issues @ [''HTTPS required for location access''] else issues)
      in \<lparr>supported = (length issues = 0), issues = issues\<rparr>)"

record position_options =
  enableHighAccuracy :: bool
  timeout :: nat
  maximumAge :: nat

record coords =
  latitude :: real
  longitude :: real
  accuracy :: real

record position_error =
  code :: nat
  message :: string

definition PERMISSION_DENIED :: nat where "PERMISSION_DENIED = 1"
definition POSITION_UNAVAILABLE :: nat where "POSITION_UNAVAILABLE = 2"
definition TIMEOUT :: nat where "TIMEOUT = 3"

record location_fix =
  loc_lat :: real
  loc_lng :: real
  loc_accuracy :: real
  loc_method :: string
  loc_city :: "string option"

text \<open>
  The sensor API: \<^verbatim>\<open>navigator.geolocation.getCurrentPosition(success, error, options)\<close>
  calls exactly one of its two callbacks, once. The sensor is a function from its own
  state and the options to the answer and its next state. What the page observes is a
  trace of events: each call of \<^verbatim>\<open>getCurrentPosition\<close> and each callback that fires, in
  order.
\<close>

datatype geo_event =
  Requested position_options
| SuccessCallback coords
| ErrorCallback position_error

type_synonym 's sensor = "'s \<Rightarrow> position_options \<Rightarrow> (position_error + coords) \<times> 's"

definition tierA :: position_options where
  "tierA = \<lparr>enableHighAccuracy = True, timeout = 5000, maximumAge = 0\<rparr>"

definition tierB :: position_options where
  "tierB = \<lparr>enableHighAccuracy = False, timeout = 3000, maximumAge = 0\<rparr>"

definition tierC :: position_options where
  "tierC = \<lparr>enableHighAccuracy = True, timeout = 15000, maximumAge = 0\<rparr>"

definition fix_of :: "coords \<Rightarrow> string \<Rightarrow> location_fix" where
  "fix_of c m =
     \<lparr>loc_lat = latitude c, loc_lng = longitude c, loc_accuracy = accuracy c,
      loc_method = m, loc_city = None\<rparr>"

text \<open>The error callback of the final attempt: the \<^verbatim>\<open>switch\<close> on the error code.\<close>

definition final_error :: "position_error \<Rightarrow> js_error" where
  "final_error e =
     (let (errorMessage, suggestion) =
            (if code e = PERMISSION_DENIED then
               (''GPS location access denied'',
                ''Please allow location access in your browser settings and try again.'')
             else if code e = POSITION_UNAVAILABLE then
               (''GPS location unavailable'',
                ''Your device cannot determine GPS location. Please check your device settings.'')
             else if code e = TIMEOUT then
               (''GPS location request timed out'',
                ''GPS is taking too long. Please try again or move to an area with better GPS signal.'')
             else
               (''GPS location detection failed'',
                ''Please try again or check your device location settings.''))
      in Error (errorMessage @ ''. '' @ suggestion))"

definition attemptFinalGPS :: "'s sensor \<Rightarrow> 's \<Rightarrow> geo_event list \<times> (js_error + location_fix)" where
  "attemptFinalGPS sensor s =
     (case sensor s tierC of
        (Inr c, s') \<Rightarrow>
          ([Requested tierC, SuccessCallback c], Inr (fix_of c ''gps_final_attempt''))
      | (Inl e, s') \<Rightarrow>
          ([Requested tierC, ErrorCallback e], Inl (final_error e)))"

definition attemptSecondTry :: "'s sensor \<Rightarrow> 's \<Rightarrow> geo_event list \<times> (js_error + location_fix)" where
  "attemptSecondTry sensor s =
     (case sensor s tierB of
        (Inr c, s') \<Rightarrow>
          ([Requested tierB, SuccessCallback c],
           Inr (fix_of c (if accuracy c \<le> 100 then ''delayed_gps'' else ''cell_tower'')))
      | (Inl e, s') \<Rightarrow>
          (let (events, outcome) = attemptFinalGPS sensor s'
           in ([Requested tierB, ErrorCallback e] @ events, outcome)))"

definition attemptHighAccuracy :: "'s sensor \<Rightarrow> 's \<Rightarrow> geo_event list \<times> (js_error + location_fix)" where
  "attemptHighAccuracy sensor s =
     (case sensor s tierA of
        (Inr c, s') \<Rightarrow>
          ([Requested tierA, SuccessCallback c],
           Inr (fix_of c
                  (if accuracy c \<le> 100 then ''high_accuracy_gps''
                   else if accuracy c \<le> 1000 then ''moderate_accuracy''
                   else ''gps_poor_accuracy'')))
      | (Inl e, s') \<Rightarrow>
          (let (events, outcome) = attemptSecondTry sensor s'
           in ([Requested tierA, ErrorCallback e] @ events, outcome)))"

text \<open>The answers of the IP geolocation services, each in its own shape.\<close>

record ip_data =
  ip_latitude :: "real option"
  ip_longitude :: "real option"
  ip_lat :: "real option"
  ip_lon :: "real option"
  ip_loc :: "string option"
  ip_city :: "string option"
  ip_region :: "string option"
  ip_regionName :: "string option"
  ip_country :: "string option"
  ip_country_name :: "string option"

definition ip_services :: "string list" where
  "ip_services = [''https://ipapi.co/json/'', ''https://ipinfo.io/json'', ''http://ip-api.com/json/'']"

text \<open>
  The body of the \<^verbatim>\<open>try\<close> of the loop of \<^verbatim>\<open>tryIPLocation\<close> once a service has answered:
  the fix it resolves with, or \<^const>\<open>None\<close> where the loop goes on.
\<close>

definition parse_ip_data :: "runtime \<Rightarrow> string \<Rightarrow> ip_data \<Rightarrow> location_fix option" where
  "parse_ip_data rt service data =
     (let (lat', lng', city') =
            (if str_includes service ''ipapi.co'' then
               (ip_latitude data, ip_longitude data,
                show_str (ip_city data) @ '', '' @ show_str (ip_region data) @ '', '' @
                show_str (ip_country_name data))
             else if str_includes service ''ip-api.com'' then
               (ip_lat data, ip_lon data,
                show_str (ip_city data) @ '', '' @ show_str (ip_regionName data) @ '', '' @
                show_str (ip_country data))
             else if str_includes service ''ipinfo.io'' then
               ((if truthy_str (ip_loc data)
                 then (case nth_opt (split_on CHR '','' (or_blank (ip_loc data))) 0 of
                         None \<Rightarrow> None | Some latStr \<Rightarrow> parseFloat rt latStr)
                 else None),
                (if truthy_str (ip_loc data)
                 then (case nth_opt (split_on CHR '','' (or_blank (ip_loc data))) 1 of
                         None \<Rightarrow> None | Some lngStr \<Rightarrow> parseFloat rt lngStr)
                 else None),
                show_str (ip_city data) @ '', '' @ show_str (ip_region data) @ '', '' @
                show_str (ip_country data))
             else (None, None, ''undefined''))
      in (case (lat', lng') of
            (Some la, Some lo) \<Rightarrow>
              if la \<noteq> 0 \<and> lo \<noteq> 0 then
                Some \<lparr>loc_lat = la, loc_lng = lo, loc_accuracy = 5000,
                      loc_method = ''ip_location'', loc_city = Some city'\<rparr>
              else None
          | _ \<Rightarrow> None))"

fun try_ip_services ::
  "runtime \<Rightarrow> (request \<Rightarrow> ip_data reply) \<Rightarrow> string list \<Rightarrow> request list \<times> (js_error + location_fix)" where
  "try_ip_services rt fetch [] =
     ([], Inl (Error ''Unable to determine your location. Please enter your address manually for accurate results.''))"
| "try_ip_services rt fetch (service # services) =
     (let req = GET service [];
          (reqs, outcome) = try_ip_services rt fetch services
      in (case fetch req of
            Response True status (Some data) \<Rightarrow>
              (case parse_ip_data rt service data of
                 Some fix \<Rightarrow> ([req], Inr fix)
               | None \<Rightarrow> (req # reqs, outcome))
          | _ \<Rightarrow> (req # reqs, outcome)))"

definition tryIPLocation ::
  "runtime \<Rightarrow> (request \<Rightarrow> ip_data reply) \<Rightarrow> request list \<times> (js_error + location_fix)" where
  "tryIPLocation rt fetch = try_ip_services rt fetch ip_services"

text \<open>
  \<^verbatim>\<open>getCurrentLocation\<close>: the events at the sensor, the requests to the IP services, and
  how the promise settles (\<^const>\<open>Inr\<close>: resolved, \<^const>\<open>Inl\<close>: rejected).
\<close>

definition getCurrentLocation ::
  "runtime \<Rightarrow> browser \<Rightarrow> (request \<Rightarrow> ip_data reply) \<Rightarrow> 's sensor \<Rightarrow> 's \<Rightarrow>
     geo_event list \<times> request list \<times> (js_error + location_fix)" where
  "getCurrentLocation rt env fetch sensor s =
     (let support = checkLocationSupport env
      in if \<not> supported support then
           (let (reqs, outcome) = tryIPLocation rt fetch in ([], reqs, outcome))
         else
           (let (events, outcome) = attemptHighAccuracy sensor s in (events, [], outcome)))"

section \<open>Geocoding\<close>

text \<open>An entry of the answer of the Nominatim search.\<close>

record nominatim_item =
  ni_place_id :: int
  ni_name :: "string option"
  ni_display_name :: string
  ni_address :: "(string \<times> string) list option"
  ni_lat :: string
  ni_lon :: string
  ni_type :: "string option"
  ni_class :: "string option"
  ni_importance :: "real option"
  ni_osm_id :: "int option"
  ni_osm_type :: "string option"
  ni_boundingbox :: "string list option"

record geocoded =
  geo_lat :: "real option"
  geo_lng :: "real option"
  geo_address :: string
  geo_display_name :: string

text \<open>
  \<^verbatim>\<open>geocodeAddress\<close>. The body of the search answer is the array \<open>data\<close>, \<^const>\<open>None\<close>
  for \<^verbatim>\<open>null\<close>. The \<^verbatim>\<open>catch\<close> logs the error and throws it again.
\<close>

definition geocodeAddress ::
  "runtime \<Rightarrow> (request \<Rightarrow> nominatim_item list option reply) \<Rightarrow> string \<Rightarrow>
     request list \<times> (js_error + geocoded)" where
  "geocodeAddress rt fetch addr =
     (let req = GET (NOMINATIM_BASE_URL @ ''/search?'' @
                     ''q='' @ encodeURIComponent rt addr @ ''&'' @
                     ''format=json&'' @
                     ''limit=1&'' @
                     ''countrycodes=in&'' @
                     ''addressdetails=1'') user_agent
      in ([req],
          (case fetch req of
             Rejected e \<Rightarrow> Inl e
           | Response ok status body \<Rightarrow>
               if \<not> ok then Inl (Error (''Nominatim Geocoding failed: '' @ show_nat status))
               else (case body of
                       None \<Rightarrow> Inl (SyntaxError ''Unexpected token'')
                     | Some data \<Rightarrow>
                         (case data of
                            Some (result # rest) \<Rightarrow>
                              Inr \<lparr>geo_lat = parseFloat rt (ni_lat result),
                                   geo_lng = parseFloat rt (ni_lon result),
                                   geo_address = ni_display_name result,
                                   geo_display_name = ni_display_name result\<rparr>
                          | _ \<Rightarrow> Inl (Error ''Address not found''))))))"

text \<open>Blank input: the empty string, or white space only (what \<^verbatim>\<open>trim\<close> removes).\<close>

definition is_space :: "char \<Rightarrow> bool" where
  "is_space c \<longleftrightarrow> c \<in> set [CHR '' '', CHR 0x09, CHR 0x0A, CHR 0x0B, CHR 0x0C, CHR 0x0D, CHR 0xA0]"

definition blank :: "string \<Rightarrow> bool" where
  "blank s \<longleftrightarrow> list_all is_space s"

section \<open>Place suggestions\<close>

record near_arg =
  near_lat :: "real option"
  near_lng :: "real option"
  near_radiusKm :: "real option"

record suggestion =
  sg_id :: int
  sg_name :: string
  sg_shortName :: string
  sg_context :: string
  sg_lat :: "real option"
  sg_lng :: "real option"
  sg_type :: "string option"
  sg_class :: "string option"
  sg_importance :: real
  sg_address :: "(string \<times> string) list"
  sg_osm_id :: "int option"
  sg_osm_type :: "string option"
  sg_boundingbox :: "string list option"

text \<open>\<^verbatim>\<open>Array.prototype.join\<close>.\<close>

fun join :: "string \<Rightarrow> string list \<Rightarrow> string" where
  "join sep [] = []"
| "join sep [x] = x"
| "join sep (x # y # ys) = x @ sep @ join sep (y # ys)"

text \<open>The callback of \<^verbatim>\<open>data.map\<close> in \<^verbatim>\<open>getPlaceSuggestions\<close>.\<close>

definition map_item :: "runtime \<Rightarrow> nominatim_item \<Rightarrow> suggestion" where
  "map_item rt item =
     (let addr = (case ni_address item of None \<Rightarrow> [] | Some a \<Rightarrow> a);
          placeName =
            or_blank
              (or_str (ni_name item)
                (or_str (nth_opt (split_on CHR '','' (ni_display_name item)) 0)
                  (or_str (map_of addr ''city'')
                    (or_str (map_of addr ''town'')
                      (or_str (map_of addr ''village'')
                        (or_str (map_of addr ''state'') (Some ''Unknown Place'')))))));
          context = [];
          context = (if truthy_str (map_of addr ''city'') \<and> map_of addr ''city'' \<noteq> Some placeName
                     then context @ [or_blank (map_of addr ''city'')] else context);
          context = (if truthy_str (map_of addr ''state'') \<and> map_of addr ''state'' \<noteq> Some placeName
                     then context @ [or_blank (map_of addr ''state'')] else context);
          context = (if truthy_str (map_of addr ''country'') \<and> map_of addr ''country'' \<noteq> Some ''India''
                     then context @ [or_blank (map_of addr ''country'')] else context)
      in \<lparr>sg_id = ni_place_id item,
          sg_name = ni_display_name item,
          sg_shortName = placeName,
          sg_context = join '', '' context,
          sg_lat = parseFloat rt (ni_lat item),
          sg_lng = parseFloat rt (ni_lon item),
          sg_type = ni_type item,
          sg_class = ni_class item,
          sg_importance = (case ni_importance item of None \<Rightarrow> 0 | Some x \<Rightarrow> x),
          sg_address = addr,
          sg_osm_id = ni_osm_id item,
          sg_osm_type = ni_osm_type item,
          sg_boundingbox = ni_boundingbox item\<rparr>)"

text \<open>\<^verbatim>\<open>near && typeof near.lat === 'number' && typeof near.lng === 'number'\<close>.\<close>

definition near_center :: "near_arg option \<Rightarrow> (real \<times> real \<times> real option) option" where
  "near_center near =
     (case near of
        None \<Rightarrow> None
      | Some n \<Rightarrow>
          (case (near_lat n, near_lng n) of
             (Some la, Some lo) \<Rightarrow> Some (la, lo, near_radiusKm n)
           | _ \<Rightarrow> None))"

text \<open>
  The sort by distance to the centre. Where a suggestion has no parsed coordinate its
  distance is \<^verbatim>\<open>NaN\<close> and the order the comparator produces is left open by the
  language; the model then keeps the order of the provider.
\<close>

definition sort_by_center :: "real \<Rightarrow> real \<Rightarrow> suggestion list \<Rightarrow> suggestion list" where
  "sort_by_center la lo mapped =
     (if list_all (\<lambda>it. sg_lat it \<noteq> None \<and> sg_lng it \<noteq> None) mapped
      then sort_key
             (\<lambda>it. case (sg_lat it, sg_lng it) of
                     (Some ila, Some ilo) \<Rightarrow> calculateDistance la lo ila ilo
                   | _ \<Rightarrow> 0)
             mapped
      else mapped)"

definition suggestions_of ::
  "runtime \<Rightarrow> near_arg option \<Rightarrow> nominatim_item list \<Rightarrow> suggestion list" where
  "suggestions_of rt near data =
     (if length data = 0 then []
      else (let mapped = map (map_item rt) data
            in (case near_center near of
                  None \<Rightarrow> mapped
                | Some (la, lo, r) \<Rightarrow> sort_by_center la lo mapped)))"

text \<open>
  \<^verbatim>\<open>getPlaceSuggestions\<close>. The query is \<^const>\<open>None\<close> for \<^verbatim>\<open>null\<close> and \<^verbatim>\<open>undefined\<close>.
  Everything behind the guard runs inside a \<^verbatim>\<open>try\<close> whose \<^verbatim>\<open>catch\<close> returns the
  empty list.
\<close>

definition getPlaceSuggestions ::
  "runtime \<Rightarrow> (request \<Rightarrow> nominatim_item list option reply) \<Rightarrow> string option \<Rightarrow> nat \<Rightarrow>
     near_arg option \<Rightarrow> request list \<times> suggestion list" where
  "getPlaceSuggestions rt fetch query limit near =
     (if \<not> truthy_str query \<or> length (or_blank query) < 2 then ([], [])
      else
       (let q = or_blank query;
            (viewboxParam, boundedParam) =
              (case near_center near of
                 None \<Rightarrow> ([], [])
               | Some (la, lo, r) \<Rightarrow>
                   (let radiusKm = (case r of None \<Rightarrow> 25 | Some v \<Rightarrow> if v = 0 then 25 else v);
                        latDelta = radiusKm / 111.32;
                        lngDelta = radiusKm / (111.32 * cos (la * pi / 180));
                        minLat = la - latDelta;
                        maxLat = la + latDelta;
                        minLng = lo - lngDelta;
                        maxLng = lo + lngDelta
                    in (''&viewbox='' @ num_to_string rt minLng @ '','' @ num_to_string rt maxLat @
                        '','' @ num_to_string rt maxLng @ '','' @ num_to_string rt minLat,
                        ''&bounded=1'')));
            searchUrl = NOMINATIM_BASE_URL @ ''/search?'' @
                        ''q='' @ encodeURIComponent rt q @ ''&'' @
                        ''format=json&'' @
                        ''limit='' @ show_nat limit @ ''&'' @
                        ''countrycodes=in&'' @
                        ''addressdetails=1&'' @
                        ''extratags=1'' @
                        ''&dedupe=1'' @
                        viewboxParam @
                        boundedParam;
            req = GET searchUrl user_agent
        in (case fetch req of
              Rejected e \<Rightarrow> ([req], [])
            | Response ok status body \<Rightarrow>
                if \<not> ok then ([req], [])
                else (case body of
                        None \<Rightarrow> ([req], [])
                      | Some None \<Rightarrow> ([req], [])
                      | Some (Some data) \<Rightarrow>
                          if length data = 0 then
                            (let fallbackUrl = NOMINATIM_BASE_URL @ ''/search?'' @
                                               ''q='' @ encodeURIComponent rt q @ ''&'' @
                                               ''format=json&'' @
                                               ''limit='' @ show_nat limit @ ''&'' @
                                               ''addressdetails=1&'' @
                                               ''extratags=1'' @
                                               ''&dedupe=1'';
                                 fbReq = GET fallbackUrl user_agent
                             in (case fetch fbReq of
                                   Rejected e \<Rightarrow> ([req, fbReq], [])
                                 | Response fbOk fbStatus fbBody \<Rightarrow>
                                     if \<not> fbOk then ([req, fbReq], [])
                                     else (case fbBody of
                                             None \<Rightarrow> ([req, fbReq], [])
                                           | Some None \<Rightarrow> ([req, fbReq], [])
                                           | Some (Some fbData) \<Rightarrow>
                                               ([req, fbReq], suggestions_of rt near fbData))))
                          else ([req], suggestions_of rt near data)))))"

section \<open>The route engine of the directions page\<close>

text \<open>
  \<^verbatim>\<open>Math.random()\<close>: the page draws from a stream of reals; the \<open>i\<close>-th draw is the
  \<open>i\<close>-th real of the stream brought into \<open>[0, 1)\<close>. A function that draws takes the
  stream and the index of its first draw, and returns the index behind its last one.
\<close>

type_synonym rng = "nat \<Rightarrow> real"

definition Math_random :: "rng \<Rightarrow> nat \<Rightarrow> real" where
  "Math_random rnd i = rnd i - of_int \<lfloor>rnd i\<rfloor>"

text \<open>\<^verbatim>\<open>xs[Math.floor(r * xs.length)]\<close> for a draw \<open>r\<close>.\<close>

definition pick :: "'a list \<Rightarrow> real \<Rightarrow> 'a" where
  "pick xs r = xs ! nat \<lfloor>r * real (length xs)\<rfloor>"

text \<open>The remainder \<^verbatim>\<open>x % m\<close> on numbers: the quotient is truncated towards zero.\<close>

definition js_rem :: "real \<Rightarrow> real \<Rightarrow> real" where
  "js_rem x m = x - m * of_int (if x / m < 0 then \<lceil>x / m\<rceil> else \<lfloor>x / m\<rfloor>)"

record endpoint =
  pt_lat :: real
  pt_lng :: real
  pt_name :: "string option"

record route_step =
  instruction :: string
  step_distance :: string
  step_duration :: string
  maneuver :: string

text \<open>
  The property \<^verbatim>\<open>duration\<close> of a route is a number of minutes where \<^verbatim>\<open>fetchRealRoute\<close>
  built the route, and the text of \<^verbatim>\<open>calculateDuration\<close> in the \<^verbatim>\<open>catch\<close> of
  \<^verbatim>\<open>calculateRoute\<close>.
\<close>

datatype duration = Minutes int | Label string

record route_info =
  route_distance :: string
  route_duration :: duration
  route_steps :: "route_step list"
  route_source :: string

text \<open>
  \<^verbatim>\<open>calculateDuration\<close>. For a mode that is none of the three travel modes the speed is
  no number, and every number of the text is \<^verbatim>\<open>NaN\<close>.
\<close>

definition calculateDuration :: "real \<Rightarrow> string \<Rightarrow> string" where
  "calculateDuration distance_km mode =
     (if mode \<noteq> ''driving'' \<and> mode \<noteq> ''walking'' \<and> mode \<noteq> ''cycling'' then ''NaNh NaNm''
      else
       (let speed = (if mode = ''driving'' then 50 else if mode = ''walking'' then 5 else 15);
            hours = distance_km / speed;
            minutes = Math_round (hours * 60)
        in if minutes < 60 then show_int minutes @ '' min''
           else show_int (minutes div 60) @ ''h '' @ show_int (minutes mod 60) @ ''m''))"

definition calculateBearing :: "real \<Rightarrow> real \<Rightarrow> real \<Rightarrow> real \<Rightarrow> real" where
  "calculateBearing lat1 lng1 lat2 lng2 =
     (let dLng = (lng2 - lng1) * pi / 180;
          lat1Rad = lat1 * pi / 180;
          lat2Rad = lat2 * pi / 180;
          y = sin dLng * cos lat2Rad;
          x = cos lat1Rad * sin lat2Rad - sin lat1Rad * cos lat2Rad * cos dLng;
          bearing = atan2 y x * 180 / pi
      in js_rem (bearing + 360) 360)"

definition getCardinalDirection :: "real \<Rightarrow> string" where
  "getCardinalDirection bearing =
     (let directions = [''north'', ''northeast'', ''east'', ''southeast'', ''south'', ''southwest'',
                        ''west'', ''northwest''];
          index = js_rem (of_int (Math_round (bearing / 45))) 8
      in if 0 \<le> index then show_str (nth_opt directions (nat \<lfloor>index\<rfloor>)) else ''undefined'')"

text \<open>The speeds of the three travel modes, on the way and on the final approach.\<close>

definition mode_speed :: "string \<Rightarrow> real" where
  "mode_speed mode = (if mode = ''driving'' then 50 else if mode = ''cycling'' then 15 else 5)"

definition approach_speed :: "string \<Rightarrow> real" where
  "approach_speed mode = (if mode = ''driving'' then 30 else if mode = ''cycling'' then 10 else 4)"

text \<open>
  One round of the loop over the middle segments of \<^verbatim>\<open>generateEnhancedMockRoute\<close>: two
  draws, one for the turn and one for the kind of road.
\<close>

definition middle_step :: "rng \<Rightarrow> nat \<Rightarrow> string \<Rightarrow> real \<Rightarrow> route_step" where
  "middle_step rnd k mode segmentDistance =
     (let turns = [''Turn right'', ''Continue straight'', ''Turn left'', ''Turn slight right'',
                   ''Turn slight left''];
          randomTurn = pick turns (Math_random rnd k);
          roadType =
            (if mode = ''driving'' then
               pick [''Main Street'', ''Highway'', ''Boulevard'', ''Avenue''] (Math_random rnd (k + 1))
             else if mode = ''cycling'' then
               pick [''bike path'', ''cycle lane'', ''shared road''] (Math_random rnd (k + 1))
             else
               pick [''sidewalk'', ''pedestrian path'', ''walkway''] (Math_random rnd (k + 1)))
      in \<lparr>instruction = randomTurn @ '' onto '' @ roadType @ '' and continue for '' @
                         toFixed 1 segmentDistance @ '' km'',
          step_distance = toFixed 1 segmentDistance @ '' km'',
          step_duration = show_int (Math_round (segmentDistance / mode_speed mode * 60)) @ '' min'',
          maneuver = (if str_includes randomTurn ''right'' then ''turn-right''
                      else if str_includes randomTurn ''left'' then ''turn-left''
                      else ''continue'')\<rparr>)"

fun middle_steps :: "rng \<Rightarrow> nat \<Rightarrow> string \<Rightarrow> real \<Rightarrow> nat \<Rightarrow> route_step list" where
  "middle_steps rnd k mode segmentDistance 0 = []"
| "middle_steps rnd k mode segmentDistance (Suc n) =
     middle_step rnd k mode segmentDistance # middle_steps rnd (k + 2) mode segmentDistance n"

definition generateEnhancedMockRoute :: "rng \<Rightarrow> nat \<Rightarrow> endpoint \<Rightarrow> endpoint \<Rightarrow> string \<Rightarrow> route_info \<times> nat" where
  "generateEnhancedMockRoute rnd k start dest mode =
     (let totalDistance = calculateDistance (pt_lat start) (pt_lng start) (pt_lat dest) (pt_lng dest);
          bearing = calculateBearing (pt_lat start) (pt_lng start) (pt_lat dest) (pt_lng dest);
          depart =
            \<lparr>instruction = ''Start '' @
                 (if mode = ''driving'' then ''driving''
                  else if mode = ''cycling'' then ''cycling'' else ''walking'') @
                 '' from your location'',
             step_distance = ''0 km'', step_duration = ''0 min'', maneuver = ''depart''\<rparr>;
          direction = getCardinalDirection bearing;
          initialTurn = (if bearing > 180 then ''Turn left''
                         else if bearing < 180 \<and> bearing > 0 then ''Turn right''
                         else ''Continue straight'');
          initial =
            \<lparr>instruction = initialTurn @ '' and head '' @ direction @ '' towards '' @
                 show_str (pt_name dest),
             step_distance = toFixed 1 (min 0.5 (totalDistance * 0.1)) @ '' km'',
             step_duration =
               show_int (Math_round (min 0.5 (totalDistance * 0.1) / mode_speed mode * 60)) @ '' min'',
             maneuver = (if bearing > 180 then ''turn-left''
                         else if bearing < 180 \<and> bearing > 0 then ''turn-right''
                         else ''continue'')\<rparr>;
          segments = (if totalDistance > 2 then nat (min 3 \<lfloor>totalDistance / 2\<rfloor>) else 0);
          middle = middle_steps rnd k mode (totalDistance * 0.6 / real segments) segments;
          k' = k + 2 * segments;
          finalDistance = max 0.1 (totalDistance * 0.1);
          finalTurn = (if Math_random rnd k' > 0.5 then ''Turn right'' else ''Turn left'');
          final =
            \<lparr>instruction = finalTurn @ '' towards '' @ show_str (pt_name dest),
             step_distance = toFixed 1 finalDistance @ '' km'',
             step_duration =
               show_int (Math_round (finalDistance / approach_speed mode * 60)) @ '' min'',
             maneuver = (if str_includes finalTurn ''right'' then ''turn-right'' else ''turn-left'')\<rparr>;
          arrive =
            \<lparr>instruction = ''Arrive at '' @ show_str (pt_name dest),
             step_distance = ''0 km'', step_duration = ''0 min'', maneuver = ''arrive''\<rparr>
      in (\<lparr>route_distance = toFixed 1 totalDistance,
           route_duration = Minutes (Math_round (totalDistance / mode_speed mode * 60)),
           route_steps = [depart, initial] @ middle @ [final, arrive],
           route_source = ''enhanced_mock''\<rparr>,
          k' + 1))"

text \<open>
  One routing provider, seen from \<^verbatim>\<open>fetchRealRoute\<close>: its \<^verbatim>\<open>try\<close> block is left by an
  exception (the request rejects, the response is not \<^verbatim>\<open>ok\<close>, the body does not parse,
  a property of the answer is missing), or the answer holds no route and the block falls
  through, or the block returns the route it has built from the answer. The route built
  from an answer is taken as it is: distance, minutes and steps.
\<close>

record provided =
  pr_distance :: string
  pr_duration :: int
  pr_steps :: "route_step list"

datatype attempt = Threw js_error | NoRoute | Route provided

definition fetchRealRoute ::
  "attempt \<Rightarrow> attempt \<Rightarrow> rng \<Rightarrow> nat \<Rightarrow> endpoint \<Rightarrow> endpoint \<Rightarrow> string \<Rightarrow>
     (js_error + route_info) \<times> nat" where
  "fetchRealRoute openrouteservice osrm rnd k start dest mode =
     (case openrouteservice of
        Route r \<Rightarrow>
          (Inr \<lparr>route_distance = pr_distance r, route_duration = Minutes (pr_duration r),
                route_steps = pr_steps r, route_source = ''openrouteservice''\<rparr>, k)
      | _ \<Rightarrow>
          (case osrm of
             Route r \<Rightarrow>
               (Inr \<lparr>route_distance = pr_distance r, route_duration = Minutes (pr_duration r),
                     route_steps = pr_steps r, route_source = ''osrm''\<rparr>, k)
           | _ \<Rightarrow>
               (let (route, k') = generateEnhancedMockRoute rnd k start dest mode
                in (Inr route, k'))))"

text \<open>
  \<^verbatim>\<open>calculateRoute\<close>, the route computation of the page: the value it stores with
  \<^verbatim>\<open>setRouteInfo\<close>, for the travel mode of the page.
\<close>

definition calculateRoute ::
  "attempt \<Rightarrow> attempt \<Rightarrow> rng \<Rightarrow> nat \<Rightarrow> string \<Rightarrow> endpoint \<Rightarrow> endpoint \<Rightarrow> route_info \<times> nat" where
  "calculateRoute openrouteservice osrm rnd k travelMode start dest =
     (case fetchRealRoute openrouteservice osrm rnd k start dest travelMode of
        (Inr routeData, k') \<Rightarrow> (routeData, k')
      | (Inl error, k') \<Rightarrow>
          (let distance_km = calculateDistance (pt_lat start) (pt_lng start) (pt_lat dest) (pt_lng dest);
               (mock, k'') = generateEnhancedMockRoute rnd k' start dest travelMode
           in (\<lparr>route_distance = toFixed 1 distance_km,
                route_duration = Label (calculateDuration distance_km travelMode),
                route_steps = route_steps mock,
                route_source = ''fallback''\<rparr>, k'')))"

section \<open>Reverse geocoding\<close>

text \<open>The body of an answer of the Nominatim reverse search, and what the service keeps of it.\<close>

record rev_body =
  rb_display_name :: "string option"
  rb_address :: "(string \<times> string) list option"

record area_info =
  ai_address :: "string option"
  ai_city :: "string option"
  ai_state :: "string option"
  ai_country :: "string option"

definition area_of_body :: "rev_body \<Rightarrow> (string \<times> string) list \<Rightarrow> area_info" where
  "area_of_body data addr =
     \<lparr>ai_address = rb_display_name data,
      ai_city = or_str (map_of addr ''city'')
                  (or_str (map_of addr ''town'') (or_str (map_of addr ''village'') (map_of addr ''hamlet''))),
      ai_state = map_of addr ''state'',
      ai_country = map_of addr ''country''\<rparr>"

definition reverseGeocode ::
  "runtime \<Rightarrow> (request \<Rightarrow> rev_body option reply) \<Rightarrow> real \<Rightarrow> real \<Rightarrow> request list \<times> (js_error + area_info)" where
  "reverseGeocode rt fetch la lo =
     (let req = GET (NOMINATIM_BASE_URL @ ''/reverse?'' @
                     ''lat='' @ num_to_string rt la @ ''&'' @
                     ''lon='' @ num_to_string rt lo @ ''&'' @
                     ''format=json&'' @
                     ''addressdetails=1'') user_agent
      in ([req],
          (case fetch req of
             Rejected e \<Rightarrow> Inl e
           | Response ok status body \<Rightarrow>
               if \<not> ok then Inl (Error (''Nominatim Reverse Geocoding failed: '' @ show_nat status))
               else (case body of
                       None \<Rightarrow> Inl (SyntaxError ''Unexpected token'')
                     | Some None \<Rightarrow> Inl (Error ''Location not found'')
                     | Some (Some data) \<Rightarrow>
                         (case rb_address data of
                            None \<Rightarrow> Inl (Error ''Location not found'')
                          | Some addr \<Rightarrow> Inr (area_of_body data addr))))))"

text \<open>
  \<^verbatim>\<open>reverseGeocodeWithTimeout\<close>: the cache \<^verbatim>\<open>reverseCache\<close> is a map from the rounded
  coordinate to the kept answer. The timer that aborts the request after \<open>timeoutMs\<close>
  belongs to the network: an aborted request is a rejected one. Every failure behind
  the cache lookup gives \<^verbatim>\<open>null\<close>.
\<close>

type_synonym rev_cache = "string \<rightharpoonup> area_info"

definition reverseGeocodeWithTimeout ::
  "runtime \<Rightarrow> rev_cache \<Rightarrow> (request \<Rightarrow> rev_body option reply) \<Rightarrow> real \<Rightarrow> real \<Rightarrow> nat \<Rightarrow>
     area_info option \<times> rev_cache \<times> request list" where
  "reverseGeocodeWithTimeout rt reverseCache fetch la lo timeoutMs =
     (let key = toFixed 5 la @ '','' @ toFixed 5 lo
      in (case reverseCache key of
            Some cached \<Rightarrow> (Some cached, reverseCache, [])
          | None \<Rightarrow>
              (let url = NOMINATIM_BASE_URL @ ''/reverse?lat='' @ num_to_string rt la @ ''&lon='' @
                         num_to_string rt lo @ ''&format=json&addressdetails=1'';
                   req = GET url user_agent
               in (case fetch req of
                     Rejected e \<Rightarrow> (None, reverseCache, [req])
                   | Response ok status body \<Rightarrow>
                       if \<not> ok then (None, reverseCache, [req])
                       else (case body of
                               None \<Rightarrow> (None, reverseCache, [req])
                             | Some None \<Rightarrow> (None, reverseCache, [req])
                             | Some (Some data) \<Rightarrow>
                                 (case rb_address data of
                                    None \<Rightarrow> (None, reverseCache, [req])
                                  | Some addr \<Rightarrow>
                                      (let v = area_of_body data addr
                                       in (Some v, reverseCache(key \<mapsto> v), [req]))))))))"

text \<open>
  The address lookups of one task. Two tasks of a search run interleaved and share the
  cache, so the contents of the cache and the behaviour of the network at a lookup are the
  environment's: the \<open>n\<close>-th lookup of a task finds the cache and the network that the
  environment gives for \<open>n\<close>. This covers every interleaving.
\<close>

type_synonym lookups = "nat \<Rightarrow> rev_cache \<times> (request \<Rightarrow> rev_body option reply)"

definition lookup :: "runtime \<Rightarrow> lookups \<Rightarrow> nat \<Rightarrow> real \<Rightarrow> real \<Rightarrow> area_info option" where
  "lookup rt env n la lo =
     fst (reverseGeocodeWithTimeout rt (fst (env n)) (snd (env n)) la lo 2000)"

section \<open>The aggregator of live places\<close>

record center =
  c_lat :: "real option"
  c_lon :: "real option"

record element =
  el_id :: int
  el_type :: "string option"
  el_lat :: "real option"
  el_lon :: "real option"
  el_center :: "center option"
  el_tags :: "(string \<times> string) list option"

record overpass_data =
  elements :: "element list option"

text \<open>\<^verbatim>\<open>a || b\<close> on numbers, and \<^verbatim>\<open>a || b || null\<close> on strings.\<close>

definition or_num :: "real option \<Rightarrow> real option \<Rightarrow> real option" where
  "or_num a b = (if truthy_num a then a else b)"

definition or_null :: "string option \<Rightarrow> string option" where
  "or_null v = (if truthy_str v then v else None)"

definition formatOSMAddress :: "(string \<times> string) list option \<Rightarrow> string" where
  "formatOSMAddress tags_opt =
     (case tags_opt of
        None \<Rightarrow> ''Address not available''
      | Some tgs \<Rightarrow>
          (let addressParts =
                 concat (map (\<lambda>k. if truthy_str (map_of tgs k) then [or_blank (map_of tgs k)] else [])
                           [''addr:housenumber'', ''addr:street'', ''addr:suburb'', ''addr:city'',
                            ''addr:state''])
           in if length addressParts > 0 then join '', '' addressParts
              else if truthy_str (map_of tgs ''name'') then ''Near '' @ or_blank (map_of tgs ''name'')
              else if truthy_str (map_of tgs ''addr:city'') then or_blank (map_of tgs ''addr:city'')
              else ''Address not available''))"

type_synonym places = "(string \<times> place list) list"

text \<open>\<^verbatim>\<open>results[categoryKey].push(place)\<close>.\<close>

definition push_place :: "string \<Rightarrow> place \<Rightarrow> places \<Rightarrow> places" where
  "push_place categoryKey p results =
     map (\<lambda>(k, ps). if k = categoryKey then (k, ps @ [p]) else (k, ps)) results"

text \<open>
  The callback of \<^verbatim>\<open>data.elements.forEach\<close>: the results and the index of the next
  draw behind the element, or the exception that leaves the callback. An element whose
  category is not a key of the table (a member of \<^verbatim>\<open>Object.prototype\<close> read through a
  fallback dictionary) raises a \<^verbatim>\<open>TypeError\<close> at \<^verbatim>\<open>PLACE_CATEGORIES[categoryKey].name\<close>.
\<close>

definition process_element ::
  "rng \<Rightarrow> real \<Rightarrow> real \<Rightarrow> real \<Rightarrow> places \<times> nat \<Rightarrow> element \<Rightarrow> js_error + places \<times> nat" where
  "process_element rnd la lo radius st el =
     (let (results, k) = st;
          elementLat = or_num (el_lat el) (case el_center el of None \<Rightarrow> None | Some c \<Rightarrow> c_lat c);
          elementLng = or_num (el_lon el) (case el_center el of None \<Rightarrow> None | Some c \<Rightarrow> c_lon c)
      in if \<not> truthy_num elementLat \<or> \<not> truthy_num elementLng then Inr (results, k)
         else
          (let elat = (case elementLat of None \<Rightarrow> 0 | Some v \<Rightarrow> v);
               elng = (case elementLng of None \<Rightarrow> 0 | Some v \<Rightarrow> v);
               dist_km = calculateDistance la lo elat elng
           in if dist_km > radius then Inr (results, k)
              else
               (case determineCategoryFromTags (el_tags el) of
                  None \<Rightarrow> Inr (results, k)
                | Some (Inherited member) \<Rightarrow>
                    Inl (TypeError ''Cannot read properties of undefined (reading name)'')
                | Some (Category categoryKey) \<Rightarrow>
                    (case map_of PLACE_CATEGORIES categoryKey of
                       None \<Rightarrow> Inl (TypeError ''Cannot read properties of undefined (reading name)'')
                     | Some cat \<Rightarrow>
                         (let tgs = (case el_tags el of None \<Rightarrow> [] | Some t \<Rightarrow> t);
                              nm = or_blank
                                     (or_str (map_of tgs ''name'')
                                        (or_str (map_of tgs ''brand'')
                                           (or_str (map_of tgs ''operator'')
                                              (Some (butlast (cat_name cat))))));
                              p = \<lparr>place_id = ''osm_'' @ categoryKey @ ''_'' @ show_int (el_id el),
                                   name = nm,
                                   category = categoryKey,
                                   categoryName = cat_name cat,
                                   icon = cat_icon cat,
                                   lat = elat,
                                   lng = elng,
                                   distance = of_int (Math_round (dist_km * 100)) / 100,
                                   address = formatOSMAddress (el_tags el),
                                   phone = or_null (or_str (map_of tgs ''phone'') (map_of tgs ''contact:phone'')),
                                   website = or_null (or_str (map_of tgs ''website'') (map_of tgs ''contact:website'')),
                                   opening_hours = or_null (map_of tgs ''opening_hours''),
                                   rating = of_int (Math_round ((Math_random rnd k * 1.5 + 3.5) * 10)) / 10,
                                   ptype = ''osm'',
                                   osm_id = Some (el_id el),
                                   osm_type = el_type el,
                                   tags = tgs,
                                   verified = False,
                                   isPopular = None,
                                   city = None, state = None, country = None\<rparr>
                          in Inr (push_place categoryKey p results, k + 1))))))"

text \<open>
  \<^verbatim>\<open>forEach\<close> over the elements: an exception leaves the loop and keeps what the
  callbacks before it have pushed.
\<close>

fun process_elements ::
  "rng \<Rightarrow> real \<Rightarrow> real \<Rightarrow> real \<Rightarrow> places \<times> nat \<Rightarrow> element list \<Rightarrow> (js_error \<times> places \<times> nat) + places \<times> nat" where
  "process_elements rnd la lo radius st [] = Inr st"
| "process_elements rnd la lo radius st (el # els) =
     (case process_element rnd la lo radius st el of
        Inl e \<Rightarrow> Inl (e, st)
      | Inr st' \<Rightarrow> process_elements rnd la lo radius st' els)"

definition overpass_request :: "runtime \<Rightarrow> string \<Rightarrow> real \<Rightarrow> real \<Rightarrow> real \<Rightarrow> request" where
  "overpass_request rt serverUrl la lo radius =
     (let radiusMeters = min (radius * 1000) 1500;
          overpassQuery =
          [CHR 0x0A] @ ''    [out:json][timeout:8];'' @ [CHR 0x0A] @ ''    ('' @ [CHR 0x0A] @
          ''      node['' @ [CHR 0x22] @ ''amenity'' @ [CHR 0x22] @ ''~'' @ [CHR 0x22] @ ''^(restaurant|fuel|hospital|bank|atm)'' @ [CHR 0x22] @ ''](around:'' @
          num_to_string rt radiusMeters @ '','' @ num_to_string rt la @ '','' @
          num_to_string rt lo @ '');'' @ [CHR 0x0A] @
          ''      node['' @ [CHR 0x22] @ ''shop'' @ [CHR 0x22] @ ''~'' @ [CHR 0x22] @ ''^(supermarket|convenience)'' @ [CHR 0x22] @ ''](around:'' @
          num_to_string rt radiusMeters @ '','' @ num_to_string rt la @ '','' @
          num_to_string rt lo @ '');'' @ [CHR 0x0A] @
          ''      node['' @ [CHR 0x22] @ ''tourism'' @ [CHR 0x22] @ ''~'' @ [CHR 0x22] @ ''^(hotel|attraction)'' @ [CHR 0x22] @ ''](around:'' @
          num_to_string rt radiusMeters @ '','' @ num_to_string rt la @ '','' @
          num_to_string rt lo @ '');'' @ [CHR 0x0A] @ ''    );'' @ [CHR 0x0A] @
          ''    out center 25;'' @ [CHR 0x0A] @ ''  ''
      in \<lparr>req_url = serverUrl, req_method = ''POST'',
          req_headers = (''Content-Type'', ''application/x-www-form-urlencoded'') # user_agent,
          req_body = Some (''data='' @ encodeURIComponent rt overpassQuery)\<rparr>)"

text \<open>
  The loop over the servers of \<^verbatim>\<open>fetchRealPlacesFromOverpass\<close>. A request that is
  aborted by the timer of 4 seconds is a rejected request. The loop returns at the first
  server whose elements are all processed; a server that fails, that answers without
  elements, or whose processing raises, sends the loop to the next server.
\<close>

fun try_servers ::
  "runtime \<Rightarrow> (request \<Rightarrow> overpass_data option reply) \<Rightarrow> rng \<Rightarrow> real \<Rightarrow> real \<Rightarrow> real \<Rightarrow>
     places \<times> nat \<Rightarrow> string list \<Rightarrow> places \<times> nat" where
  "try_servers rt fetch rnd la lo radius st [] = st"
| "try_servers rt fetch rnd la lo radius st (serverUrl # servers) =
     (case fetch (overpass_request rt serverUrl la lo radius) of
        Response True status (Some (Some data)) \<Rightarrow>
          (case elements data of
             None \<Rightarrow> try_servers rt fetch rnd la lo radius st servers
           | Some els \<Rightarrow>
               if length els > 0 then
                 (case process_elements rnd la lo radius st els of
                    Inr (results, k) \<Rightarrow>
                      (map (\<lambda>(categoryKey, ps). (categoryKey, take 8 (sort_key distance ps))) results, k)
                  | Inl (e, st') \<Rightarrow> try_servers rt fetch rnd la lo radius st' servers)
               else try_servers rt fetch rnd la lo radius st servers)
      | _ \<Rightarrow> try_servers rt fetch rnd la lo radius st servers)"

definition fetchRealPlacesFromOverpass ::
  "runtime \<Rightarrow> (request \<Rightarrow> overpass_data option reply) \<Rightarrow> rng \<Rightarrow> real \<Rightarrow> real \<Rightarrow> real \<Rightarrow> places" where
  "fetchRealPlacesFromOverpass rt fetch rnd la lo radius =
     fst (try_servers rt fetch rnd la lo radius (map (\<lambda>key. (key, [])) category_keys, 0) OVERPASS_SERVERS)"

text \<open>
  \<^verbatim>\<open>enhanceRealPlacesWithAddresses\<close>: at most 15 lookups; the walk over all categories
  ends (\<^verbatim>\<open>break outer\<close>) at the first place that needs a lookup beyond the cap.
\<close>

definition decent_address :: "place \<Rightarrow> bool" where
  "decent_address p \<longleftrightarrow>
     address p \<noteq> [] \<and> address p \<noteq> ''Address not available'' \<and> \<not> startsWith (address p) ''Near''"

fun enhance_places :: "runtime \<Rightarrow> lookups \<Rightarrow> nat \<Rightarrow> place list \<Rightarrow> place list \<times> nat \<times> bool" where
  "enhance_places rt env n [] = ([], n, False)"
| "enhance_places rt env n (p # ps) =
     (if decent_address p then
        (let (ps', n', stop) = enhance_places rt env n ps in (p # ps', n', stop))
      else if n \<ge> 15 then (p # ps, n, True)
      else
        (let p' = (case lookup rt env n (lat p) (lng p) of
                     None \<Rightarrow> p
                   | Some info \<Rightarrow>
                       if truthy_str (ai_address info) then
                         p\<lparr>address := or_blank (ai_address info), city := ai_city info,
                            state := ai_state info, country := ai_country info\<rparr>
                       else p);
             (ps', n', stop) = enhance_places rt env (n + 1) ps
         in (p' # ps', n', stop)))"

fun enhance_categories :: "runtime \<Rightarrow> lookups \<Rightarrow> nat \<Rightarrow> places \<Rightarrow> places" where
  "enhance_categories rt env n [] = []"
| "enhance_categories rt env n ((categoryKey, ps) # rest) =
     (let (ps', n', stop) = enhance_places rt env n ps
      in (categoryKey, ps') # (if stop then rest else enhance_categories rt env n' rest))"

definition enhanceRealPlacesWithAddresses :: "runtime \<Rightarrow> lookups \<Rightarrow> places \<Rightarrow> places" where
  "enhanceRealPlacesWithAddresses rt env realPlaces = enhance_categories rt env 0 realPlaces"

section \<open>The generator of verified-style synthetic places\<close>

definition getRealisticBusinessNames :: "string \<Rightarrow> area_info \<Rightarrow> string list" where
  "getRealisticBusinessNames categoryKey areaInfo =
     (let city' = (if truthy_str (ai_city areaInfo) then or_blank (ai_city areaInfo) else ''City'');
          cityPrefix = or_blank (nth_opt (split_on CHR '' '' city') 0);
          businessTemplates =
           [(''restaurant'',
               [cityPrefix @ '' Dhaba'', ''Royal Restaurant'', ''Punjabi Tadka'',
                ''South Indian Corner'', ''Biryani House'', ''Family Restaurant'',
                ''Hotel '' @ cityPrefix, ''Spice Garden'', ''Maharaja Restaurant'',
                ''Golden Palace'', ''Taste of India'', ''Local Kitchen'']),
            (''cafe'',
               [''Chai Point '' @ cityPrefix, ''Coffee Day'', ''Brew & Beans'', ''Tea Junction'',
                ''Cafe Mocha'', cityPrefix @ '' Coffee House'', ''Bean There'',
                ''Espresso Corner'', ''Tea Time Cafe'', ''Coffee Culture'', ''Barista Cafe'',
                ''Steam & Beans'']),
            (''lodging'',
               [''Hotel '' @ cityPrefix, ''OYO Rooms'', ''Guest House'', ''Lodge Palace'',
                cityPrefix @ '' Inn'', ''Comfort Stay'', ''Budget Hotel'', ''Traveler's Rest'',
                ''City Hotel'', ''Royal Lodge'', ''Business Hotel'', ''Tourist Inn'']),
            (''gas_station'',
               [''Indian Oil Petrol Pump'', ''HP Petrol Station'', ''Bharat Petroleum'',
                ''Reliance Petrol Pump'', ''Shell Station'', ''Fuel Station '' @ cityPrefix,
                ''Petrol Bunk'', ''Energy Station'']),
            (''shopping'',
               [cityPrefix @ '' Market'', ''Big Bazaar'', ''Reliance Fresh'',
                ''More Supermarket'', ''Local Market'', ''City Mall'', ''Super Market'',
                ''General Store'', ''Kirana Store'', ''Provision Store'', ''Mini Mart'',
                ''Shopping Center'']),
            (''hospital'',
               [cityPrefix @ '' Hospital'', ''City Clinic'', ''Health Center'',
                ''Medical Center'', ''Multispecialty Hospital'', ''Government Hospital'',
                ''Nursing Home'', ''Apollo Clinic'', ''Max Healthcare'', ''Fortis Clinic'']),
            (''bank'',
               [''State Bank of India'', ''HDFC Bank'', ''ICICI Bank'', ''Axis Bank'',
                ''Punjab National Bank'', ''Bank of Baroda'', ''Canara Bank'', ''Union Bank'',
                ''Yes Bank'', ''Kotak Bank'', ''ATM Center'']),
            (''transport'',
               [cityPrefix @ '' Railway Station'', ''Bus Stand'', ''Metro Station'',
                ''Auto Stand'', ''Taxi Stand'', ''Bus Terminal'', ''Transport Hub'',
                ''ISBT '' @ cityPrefix]),
            (''entertainment'',
               [cityPrefix @ '' Park'', ''City Garden'', ''PVR Cinemas'', ''INOX'', ''Fun City'',
                ''Entertainment Zone'', ''Amusement Park'', ''Recreation Center''])]
      in (case map_of businessTemplates categoryKey of
            Some ns \<Rightarrow> ns
          | None \<Rightarrow> [cityPrefix @ '' '' @ categoryKey, ''Local '' @ categoryKey]))"

definition generateAreaBasedAddress :: "rng \<Rightarrow> nat \<Rightarrow> area_info \<Rightarrow> nat \<Rightarrow> string" where
  "generateAreaBasedAddress rnd k areaInfo index =
     (let houseNo = \<lfloor>Math_random rnd k * 999\<rfloor> + 1;
          streets = [''Main Road'', ''Station Road'', ''Market Road'', ''Gandhi Road'', ''Nehru Street'',
                     ''MG Road''];
          areas' = [''City Center'', ''Market Area'', ''Station Area'', ''Civil Lines'', ''Model Town''];
          street = streets ! (index mod length streets);
          area = areas' ! (index mod length areas');
          city' = (if truthy_str (ai_city areaInfo) then or_blank (ai_city areaInfo) else ''City'')
      in show_int houseNo @ '', '' @ street @ '', '' @ area @ '', '' @ city')"

definition generateRealisticPhone :: "rng \<Rightarrow> nat \<Rightarrow> string" where
  "generateRealisticPhone rnd k =
     (let prefixes = [''+91-98'', ''+91-99'', ''+91-97'', ''+91-96'', ''+91-95''];
          prefix = pick prefixes (Math_random rnd k);
          number = \<lfloor>Math_random rnd (k + 1) * 90000000\<rfloor> + 10000000
      in prefix @ take 8 (show_int number))"

definition generateRealisticOpeningHours :: "rng \<Rightarrow> nat \<Rightarrow> string \<Rightarrow> string" where
  "generateRealisticOpeningHours rnd k categoryKey =
     (let schedules =
           [(''restaurant'',
               [''9:00 AM - 11:00 PM'', ''11:00 AM - 10:30 PM'', ''8:00 AM - 10:00 PM'']),
            (''cafe'',
               [''7:00 AM - 10:00 PM'', ''8:00 AM - 9:00 PM'', ''6:00 AM - 11:00 PM'']),
            (''lodging'',
               [''24 Hours'', ''Check-in: 2:00 PM, Check-out: 12:00 PM'']),
            (''gas_station'',
               [''24 Hours'', ''6:00 AM - 10:00 PM'']),
            (''shopping'',
               [''9:00 AM - 9:00 PM'', ''10:00 AM - 8:00 PM'', ''8:00 AM - 10:00 PM'']),
            (''hospital'',
               [''24 Hours'', ''9:00 AM - 6:00 PM'', ''8:00 AM - 8:00 PM'']),
            (''bank'',
               [''10:00 AM - 4:00 PM'', ''9:30 AM - 3:30 PM'', ''10:00 AM - 5:00 PM'']),
            (''transport'',
               [''24 Hours'', ''5:00 AM - 11:00 PM'']),
            (''entertainment'',
               [''10:00 AM - 10:00 PM'', ''9:00 AM - 9:00 PM'', ''11:00 AM - 11:00 PM''])];
          categorySchedules = (case map_of schedules categoryKey of
                                 Some s \<Rightarrow> s
                               | None \<Rightarrow> [''9:00 AM - 9:00 PM''])
      in pick categorySchedules (Math_random rnd k))"

text \<open>\<^verbatim>\<open>String.prototype.toLowerCase\<close> on the code units below 256.\<close>

definition to_lower_char :: "char \<Rightarrow> char" where
  "to_lower_char c =
     (let n = (of_char c :: nat)
      in if (65 \<le> n \<and> n \<le> 90) \<or> (192 \<le> n \<and> n \<le> 222 \<and> n \<noteq> 215) then char_of (n + 32) else c)"

definition toLowerCase :: "string \<Rightarrow> string" where
  "toLowerCase s = map to_lower_char s"

text \<open>\<^verbatim>\<open>replace(/[^a-z0-9]/g, '')\<close>.\<close>

definition keep_alnum :: "string \<Rightarrow> string" where
  "keep_alnum s =
     filter (\<lambda>c. let n = (of_char c :: nat) in (97 \<le> n \<and> n \<le> 122) \<or> (48 \<le> n \<and> n \<le> 57)) s"

text \<open>
  One round of the loop of \<^verbatim>\<open>generateRealisticPlacesForCategory\<close>: eight draws, in the
  order of the source (angle, distance, house number, two for the phone, website,
  opening hours, rating).
\<close>

definition realistic_place ::
  "rng \<Rightarrow> nat \<Rightarrow> string \<Rightarrow> category_def \<Rightarrow> real \<Rightarrow> real \<Rightarrow> real \<Rightarrow> area_info \<Rightarrow> string list \<Rightarrow> nat \<Rightarrow> place" where
  "realistic_place rnd k categoryKey cat centerLat centerLng radius areaInfo businessNames i =
     (let maxPlaces = 8;
          angle = (real i / maxPlaces) * 2 * pi + (Math_random rnd k - 0.5) * 0.5;
          dist_km = Math_random rnd (k + 1) * radius * 0.8 + 0.5;
          latOffset = (dist_km / 111.32) * cos angle;
          lngOffset = (dist_km / (111.32 * cos (centerLat * pi / 180))) * sin angle;
          placeLat = centerLat + latOffset;
          placeLng = centerLng + lngOffset;
          actualDistance = calculateDistance centerLat centerLng placeLat placeLng;
          businessName = businessNames ! (i mod length businessNames);
          addr = generateAreaBasedAddress rnd (k + 2) areaInfo i
      in \<lparr>place_id = ''verified_'' @ categoryKey @ ''_'' @ toFixed 4 centerLat @ ''_'' @
                       toFixed 4 centerLng @ ''_'' @ show_nat i,
          name = businessName,
          category = categoryKey,
          categoryName = cat_name cat,
          icon = cat_icon cat,
          lat = placeLat,
          lng = placeLng,
          distance = of_int (Math_round (actualDistance * 100)) / 100,
          address = addr,
          phone = Some (generateRealisticPhone rnd (k + 3)),
          website = (if Math_random rnd (k + 5) > 0.7
                     then Some (''https://www.'' @ keep_alnum (toLowerCase businessName) @ ''.com'')
                     else None),
          opening_hours = Some (generateRealisticOpeningHours rnd (k + 6) categoryKey),
          rating = of_int (Math_round ((Math_random rnd (k + 7) * 1.5 + 3.5) * 10)) / 10,
          ptype = ''verified_mock'',
          osm_id = None, osm_type = None, tags = [],
          verified = True,
          isPopular = None,
          city = ai_city areaInfo,
          state = ai_state areaInfo,
          country = None\<rparr>)"

definition generateRealisticPlacesForCategory ::
  "rng \<Rightarrow> nat \<Rightarrow> string \<Rightarrow> category_def \<Rightarrow> real \<Rightarrow> real \<Rightarrow> real \<Rightarrow> area_info \<Rightarrow> place list \<times> nat" where
  "generateRealisticPlacesForCategory rnd k categoryKey cat centerLat centerLng radius areaInfo =
     (let maxPlaces = 8;
          businessNames = getRealisticBusinessNames categoryKey areaInfo;
          places =
            map (\<lambda>i. realistic_place rnd (k + 8 * i) categoryKey cat centerLat centerLng radius areaInfo
                        businessNames i)
              [0..<maxPlaces]
      in (sort_key distance places, k + 8 * maxPlaces))"

fun generate_categories ::
  "rng \<Rightarrow> nat \<Rightarrow> real \<Rightarrow> real \<Rightarrow> real \<Rightarrow> area_info \<Rightarrow> (string \<times> category_def) list \<Rightarrow> places" where
  "generate_categories rnd k la lo radius areaInfo [] = []"
| "generate_categories rnd k la lo radius areaInfo ((categoryKey, cat) # rest) =
     (let (ps, k') = generateRealisticPlacesForCategory rnd k categoryKey cat la lo radius areaInfo
      in (categoryKey, ps) # generate_categories rnd k' la lo radius areaInfo rest)"

text \<open>
  \<^verbatim>\<open>refineVerifiedMockAddresses\<close>: a lookup for the first two places of a category, at
  most 12 lookups; the function returns at the cap.
\<close>

definition refine_place :: "runtime \<Rightarrow> lookups \<Rightarrow> nat \<Rightarrow> place \<Rightarrow> place" where
  "refine_place rt env n p =
     (case lookup rt env n (lat p) (lng p) of
        None \<Rightarrow> p
      | Some info \<Rightarrow>
          if truthy_str (ai_address info) then
            p\<lparr>address := or_blank (ai_address info),
               city := or_str (ai_city info) (city p),
               state := or_str (ai_state info) (state p),
               country := or_str (ai_country info) (country p)\<rparr>
          else p)"

fun refine_places :: "runtime \<Rightarrow> lookups \<Rightarrow> nat \<Rightarrow> nat \<Rightarrow> place list \<Rightarrow> place list \<times> nat \<times> bool" where
  "refine_places rt env n i [] = ([], n, False)"
| "refine_places rt env n i (p # ps) =
     (if i \<ge> 2 then (p # ps, n, False)
      else if n \<ge> 12 then (p # ps, n, True)
      else (let (ps', n', stop) = refine_places rt env (n + 1) (i + 1) ps
            in (refine_place rt env n p # ps', n', stop)))"

fun refine_categories :: "runtime \<Rightarrow> lookups \<Rightarrow> nat \<Rightarrow> places \<Rightarrow> places" where
  "refine_categories rt env n [] = []"
| "refine_categories rt env n ((categoryKey, ps) # rest) =
     (let (ps', n', stop) = refine_places rt env n 0 ps
      in (categoryKey, ps') # (if stop then rest else refine_categories rt env n' rest))"

definition refineVerifiedMockAddresses :: "runtime \<Rightarrow> lookups \<Rightarrow> places \<Rightarrow> places" where
  "refineVerifiedMockAddresses rt env verifiedPlaces = refine_categories rt env 0 verifiedPlaces"

text \<open>
  What a search finds outside the program: the network of the live provider and whether
  the timer of 3 seconds fires before the live search settles; the network of the reverse
  search for the centre and whether its timer of 3 seconds fires first; the draws and the
  address lookups of the synthetic task and of the live task.
\<close>

record search_env =
  overpass :: "request \<Rightarrow> overpass_data option reply"
  overpass_timer_first :: bool
  area_network :: "request \<Rightarrow> rev_body option reply"
  area_timer_first :: bool
  mock_random :: rng
  mock_lookups :: lookups
  real_random :: rng
  real_lookups :: lookups

text \<open>
  \<^verbatim>\<open>generateVerifiedMockPlaces\<close>: how its promise settles. The reverse search of the
  centre runs in a \<^verbatim>\<open>try\<close> whose \<^verbatim>\<open>catch\<close> supplies generic labels.
\<close>

definition generateVerifiedMockPlaces ::
  "runtime \<Rightarrow> search_env \<Rightarrow> real \<Rightarrow> real \<Rightarrow> real \<Rightarrow> js_error + places" where
  "generateVerifiedMockPlaces rt env la lo radius =
     (let fallbackInfo = \<lparr>ai_address = None, ai_city = Some ''Unknown City'',
                          ai_state = Some ''Unknown State'', ai_country = Some ''India''\<rparr>;
          raced = (if area_timer_first env then Inl (Error ''Reverse geocoding timeout'')
                   else snd (reverseGeocode rt (area_network env) la lo));
          areaInfo = (case raced of Inl error \<Rightarrow> fallbackInfo | Inr info \<Rightarrow> info);
          verifiedPlaces = generate_categories (mock_random env) 0 la lo radius areaInfo PLACE_CATEGORIES
      in Inr (refineVerifiedMockAddresses rt (mock_lookups env) verifiedPlaces))"

section \<open>The search for nearby places\<close>

definition totalRealPlaces :: "places \<Rightarrow> nat" where
  "totalRealPlaces realPlaces = sum_list (map (\<lambda>(k, ps). length ps) realPlaces)"

text \<open>
  \<^verbatim>\<open>fetchNearbyPlaces\<close>: how its promise settles (\<^const>\<open>Inr\<close>: resolved, \<^const>\<open>Inl\<close>:
  rejected). \<^verbatim>\<open>return await verifiedMockPlacesPromise\<close> settles as that promise does.
\<close>

definition fetchNearbyPlaces ::
  "runtime \<Rightarrow> search_env \<Rightarrow> real \<Rightarrow> real \<Rightarrow> real \<Rightarrow> js_error + places" where
  "fetchNearbyPlaces rt env la lo radius =
     (let verifiedMockPlacesPromise = generateVerifiedMockPlaces rt env la lo radius;
          raced = (if overpass_timer_first env then Inl (Error ''Overpass API timeout'')
                   else Inr (fetchRealPlacesFromOverpass rt (overpass env) (real_random env) la lo radius))
      in (case raced of
            Inl timeoutError \<Rightarrow> verifiedMockPlacesPromise
          | Inr realPlaces \<Rightarrow>
              if totalRealPlaces realPlaces > 0 then
                (let enhanced = enhanceRealPlacesWithAddresses rt (real_lookups env) realPlaces
                 in (case verifiedMockPlacesPromise of
                       Inl error \<Rightarrow> verifiedMockPlacesPromise
                     | Inr verifiedMockPlaces \<Rightarrow>
                         Inr (mergeRealAndMockData (map_of enhanced) (map_of verifiedMockPlaces))))
              else verifiedMockPlacesPromise))"

text \<open>
  Every live mirror fails or is empty: the request is rejected or aborted, the response is
  not \<^verbatim>\<open>ok\<close>, the body does not parse, or it holds no element.
\<close>

definition mirror_fails ::
  "runtime \<Rightarrow> (request \<Rightarrow> overpass_data option reply) \<Rightarrow> real \<Rightarrow> real \<Rightarrow> real \<Rightarrow> string \<Rightarrow> bool" where
  "mirror_fails rt fetch la lo radius serverUrl =
     (case fetch (overpass_request rt serverUrl la lo radius) of
        Response True status (Some (Some data)) \<Rightarrow>
          (case elements data of None \<Rightarrow> True | Some els \<Rightarrow> els = [])
      | _ \<Rightarrow> True)"

section \<open>Notions used in the properties\<close>

text \<open>
  The synthetic places of a category that the proximity rule does not exclude: the
  argument of \<^verbatim>\<open>slice(0, needed)\<close> in \<^verbatim>\<open>mergeRealAndMockData\<close>.
\<close>

definition synthetic_available :: "place list \<Rightarrow> place list \<Rightarrow> place list" where
  "synthetic_available realPlaces mockPlaces =
     filter (\<lambda>mockPlace. \<not> list_ex (\<lambda>realPlace. near_dup realPlace mockPlace) realPlaces) mockPlaces"

text \<open>
  No two entries of a list lie within 0.002 degrees of each other in both axes (the
  pairs are the pairs of positions of the list).
\<close>

fun pairwise_apart :: "place list \<Rightarrow> bool" where
  "pairwise_apart [] = True"
| "pairwise_apart (x # xs) = (\<not> list_ex (near_dup x) xs \<and> pairwise_apart xs)"

text \<open>A routing provider fails: its \<^verbatim>\<open>try\<close> block does not return a route.\<close>

definition provider_fails :: "attempt \<Rightarrow> bool" where
  "provider_fails a = (case a of Route r \<Rightarrow> False | _ \<Rightarrow> True)"

text \<open>The request of \<^verbatim>\<open>geocodeAddress\<close> for an input.\<close>

definition geocode_request :: "runtime \<Rightarrow> string \<Rightarrow> request" where
  "geocode_request rt addr =
     GET (NOMINATIM_BASE_URL @ ''/search?q='' @ encodeURIComponent rt addr @
          ''&format=json&limit=1&countrycodes=in&addressdetails=1'') user_agent"

text \<open>
  The promise is resolved with the position of a success callback: the fix holds its
  latitude, longitude and accuracy.
\<close>

definition resolved_with :: "coords \<Rightarrow> (js_error + location_fix) \<Rightarrow> bool" where
  "resolved_with c outcome =
     (case outcome of
        Inl e \<Rightarrow> False
      | Inr fix \<Rightarrow> loc_lat fix = latitude c \<and> loc_lng fix = longitude c \<and> loc_accuracy fix = accuracy c)"

text \<open>
  The trace of the sensor cascade for a sensor in a state, tied to what the sensor answers:
  tier A is requested first, and its callback is the answer of the sensor to tier A; tier B
  is requested exactly when that answer is an error, behind the error callback, and its
  callback is the answer of the sensor to tier B; tier C likewise behind the error of tier
  B. The promise is resolved with the position of the first success, and rejected with the
  error of tier C when all three tiers fail.
\<close>

definition cascade_trace ::
  "'s sensor \<Rightarrow> 's \<Rightarrow> geo_event list \<Rightarrow> (js_error + location_fix) \<Rightarrow> bool" where
  "cascade_trace sensor s events outcome =
     (case sensor s tierA of
        (Inr c, s1) \<Rightarrow>
          events = [Requested tierA, SuccessCallback c] \<and> resolved_with c outcome
      | (Inl e1, s1) \<Rightarrow>
          (case sensor s1 tierB of
             (Inr c, s2) \<Rightarrow>
               events = [Requested tierA, ErrorCallback e1, Requested tierB, SuccessCallback c] \<and>
               resolved_with c outcome
           | (Inl e2, s2) \<Rightarrow>
               (case sensor s2 tierC of
                  (Inr c, s3) \<Rightarrow>
                    events = [Requested tierA, ErrorCallback e1, Requested tierB, ErrorCallback e2,
                              Requested tierC, SuccessCallback c] \<and>
                    resolved_with c outcome
                | (Inl e3, s3) \<Rightarrow>
                    events = [Requested tierA, ErrorCallback e1, Requested tierB, ErrorCallback e2,
                              Requested tierC, ErrorCallback e3] \<and>
                    outcome = Inl (final_error e3))))"

section \<open>Sample data\<close>

text \<open>Places around Connaught Place used to run the definitions on concrete inputs.\<close>

definition sample_place :: "string \<Rightarrow> string \<Rightarrow> real \<Rightarrow> real \<Rightarrow> real \<Rightarrow> place" where
  "sample_place pid ty la lo d =
     \<lparr>place_id = pid, name = ''Sample'', category = ''cafe'', categoryName = ''Cafes & Tea Stalls'',
      icon = [9749], lat = la, lng = lo, distance = d, address = ''Address not available'',
      phone = None, website = None, opening_hours = None, rating = 4, ptype = ty,
      osm_id = None, osm_type = None, tags = [], verified = False, isPopular = None,
      city = None, state = None, country = None\<rparr>"

definition live1 :: place where
  "live1 = sample_place ''osm_cafe_1'' ''osm'' 28.6140 77.2090 0.4"

definition live2 :: place where
  "live2 = sample_place ''osm_cafe_2'' ''osm'' 28.6145 77.2095 0.3"

definition synth1 :: place where
  "synth1 = sample_place ''verified_cafe_28.6139_77.2090_0'' ''verified_mock'' 28.6150 77.2100 0.2"

definition synth2 :: place where
  "synth2 = sample_place ''verified_cafe_28.6139_77.2090_1'' ''verified_mock'' 28.6300 77.2300 2.5"

definition sample_runtime :: runtime where
  "sample_runtime = \<lparr>encodeURIComponent = (\<lambda>s. s), num_to_string = toFixed 6, parseFloat = (\<lambda>s. None)\<rparr>"

definition sample_item :: nominatim_item where
  "sample_item =
     \<lparr>ni_place_id = 1, ni_name = Some ''India'', ni_display_name = ''India'', ni_address = None,
      ni_lat = ''22.3511148'', ni_lon = ''78.6677428'', ni_type = Some ''administrative'',
      ni_class = Some ''boundary'', ni_importance = None, ni_osm_id = None, ni_osm_type = None,
      ni_boundingbox = None\<rparr>"

text \<open>A search provider that answers every query with one result, and one that finds nothing.\<close>

definition answering_network :: "request \<Rightarrow> nominatim_item list option reply" where
  "answering_network req = Response True 200 (Some (Some [sample_item]))"

definition empty_network :: "request \<Rightarrow> nominatim_item list option reply" where
  "empty_network req = Response True 200 (Some (Some []))"

text \<open>A page served over HTTPS in a browser with the sensor API.\<close>

definition sample_browser :: browser where
  "sample_browser = \<lparr>has_geolocation = True, protocol = ''https:'', hostname = ''example.org''\<rparr>"

text \<open>
  A sensor whose state counts its calls: it times out twice and then gives a position.
\<close>

definition slow_sensor :: "nat sensor" where
  "slow_sensor n opts =
     (if n < 2 then Inl \<lparr>code = 3, message = ''Timeout expired''\<rparr>
      else Inr \<lparr>latitude = 28.6139, longitude = 77.2090, accuracy = 35\<rparr>,
      Suc n)"

text \<open>A page served over plain HTTP, from a host other than localhost, in the same browser.\<close>

definition http_browser :: browser where
  "http_browser = \<lparr>has_geolocation = True, protocol = ''http:'', hostname = ''example.org''\<rparr>"

text \<open>A sensor that gives a precise position at once.\<close>

definition instant_sensor :: "nat sensor" where
  "instant_sensor n opts = (Inr \<lparr>latitude = 28.6139, longitude = 77.2090, accuracy = 12\<rparr>, Suc n)"

definition no_ip_network :: "request \<Rightarrow> ip_data reply" where
  "no_ip_network req = Rejected (TypeError ''Failed to fetch'')"

definition sample_start :: endpoint where
  "sample_start = \<lparr>pt_lat = 28.6, pt_lng = 77.2, pt_name = None\<rparr>"

definition sample_dest :: endpoint where
  "sample_dest = \<lparr>pt_lat = 28.7, pt_lng = 77.3, pt_name = Some ''India Gate''\<rparr>"

text \<open>A search in which every live mirror is unreachable and no reverse search answers.\<close>

definition offline_env :: search_env where
  "offline_env =
     \<lparr>overpass = (\<lambda>req. Rejected (TypeError ''Failed to fetch'')),
      overpass_timer_first = False,
      area_network = (\<lambda>req. Rejected (TypeError ''Failed to fetch'')),
      area_timer_first = False,
      mock_random = (\<lambda>i. 0),
      mock_lookups = (\<lambda>n. (Map.empty, (\<lambda>req. Rejected (TypeError ''Failed to fetch'')))),
      real_random = (\<lambda>i. 0),
      real_lookups = (\<lambda>n. (Map.empty, (\<lambda>req. Rejected (TypeError ''Failed to fetch''))))\<rparr>"

section \<open>Properties of the merge\<close>

lemma merge_category_length:
  "length (merge_category r m) =
     min 10 (max (length r) (min 6 (length r + length (synthetic_available r m))))"
proof (cases "length r < 6")
  case short: True
  show ?thesis
  proof (cases "r = []")
    case True
    then show ?thesis
      by (auto simp: merge_category_def Let_def synthetic_available_def min_def max_def)
  next
    case False
    with short show ?thesis
      by (auto simp: merge_category_def Let_def synthetic_available_def min_def max_def)
  qed
next
  case False
  then show ?thesis
    by (auto simp: merge_category_def Let_def min_def max_def)
qed

lemma merge_category_sorted: "sorted (map distance (merge_category r m))"
  by (simp add: merge_category_def Let_def sorted_wrt_take flip: take_map)

lemma merge_category_origin:
  assumes "x \<in> set (merge_category r m)"
  shows "x \<in> set r \<or> (x \<in> set m \<and> (\<forall>rp \<in> set r. \<not> near_dup rp x))"
  using assms
  by (auto simp: merge_category_def Let_def list_ex_iff split: if_splits dest!: in_set_takeD)

lemma merge_lookup:
  "map_of (mergeRealAndMockData realData mockData) k =
     (if k \<in> set category_keys
      then Some (merge_category (or_empty (realData k)) (or_empty (mockData k))) else None)"
  by (simp add: mergeRealAndMockData_def map_of_map_restrict restrict_map_def)

lemma cafe_key: "''cafe'' \<in> set category_keys"
  by (simp add: category_keys_def PLACE_CATEGORIES_def)

lemma sample_near:
  "near_dup live1 synth1" "near_dup live2 synth1" "near_dup live1 live2" "near_dup live2 live1"
  "\<not> near_dup live1 synth2" "\<not> near_dup live2 synth2"
  by (simp_all add: near_dup_def live1_def live2_def synth1_def synth2_def sample_place_def)

lemma sample_distance:
  "distance live1 = 0.4" "distance live2 = 0.3" "distance synth1 = 0.2" "distance synth2 = 2.5"
  by (simp_all add: live1_def live2_def synth1_def synth2_def sample_place_def)

lemma merge_sample: "merge_category [live1, live2] [synth1, synth2] = [live2, live1, synth2]"
  by (simp add: merge_category_def Let_def sample_near sample_distance)

lemma synthetic_available_sample: "synthetic_available [live1, live2] [synth1, synth2] = [synth2]"
  by (simp add: synthetic_available_def sample_near)

text \<open>
  C1, as stated, fails: two live cafes 0.0005 degrees apart are both returned. The merge
  compares synthetic places with live places only; it never compares two live places,
  nor two synthetic places.
\<close>

theorem merge_pairwise_apart_counterexample:
  "\<not> pairwise_apart
       (or_empty (map_of (mergeRealAndMockData [''cafe'' \<mapsto> [live1, live2]]
                            [''cafe'' \<mapsto> [synth1, synth2]]) ''cafe''))"
  by (simp add: merge_lookup cafe_key or_empty_def merge_sample sample_near)

text \<open>
  C1, amended: for every category, every entry of the list returned by
  \<^verbatim>\<open>mergeRealAndMockData\<close> is a live entry of that category, or a synthetic entry of that
  category that does not lie within 0.002 degrees, in both the latitude and the longitude
  axis, of any live entry of the category.
\<close>

theorem merge_entry_live_or_distant_synthetic:
  assumes "map_of (mergeRealAndMockData realData mockData) categoryKey = Some out"
    and "x \<in> set out"
  shows "x \<in> set (or_empty (realData categoryKey)) \<or>
         (x \<in> set (or_empty (mockData categoryKey)) \<and>
          (\<forall>realPlace \<in> set (or_empty (realData categoryKey)). \<not> near_dup realPlace x))"
  using assms merge_category_origin
  by (auto simp: merge_lookup split: if_splits)

theorem merge_entry_live_or_distant_synthetic_witness:
  "map_of (mergeRealAndMockData [''cafe'' \<mapsto> [live1, live2]] [''cafe'' \<mapsto> [synth1, synth2]]) ''cafe''
     = Some [live2, live1, synth2] \<and>
   synth2 \<in> set [live2, live1, synth2] \<and>
   (synth2 \<in> set (or_empty ([''cafe'' \<mapsto> [live1, live2]] ''cafe'')) \<or>
    (synth2 \<in> set (or_empty ([''cafe'' \<mapsto> [synth1, synth2]] ''cafe'')) \<and>
     (\<forall>realPlace \<in> set (or_empty ([''cafe'' \<mapsto> [live1, live2]] ''cafe'')). \<not> near_dup realPlace synth2)))"
proof -
  have out: "map_of (mergeRealAndMockData [''cafe'' \<mapsto> [live1, live2]] [''cafe'' \<mapsto> [synth1, synth2]]) ''cafe''
     = Some [live2, live1, synth2]"
    by (simp add: merge_lookup cafe_key or_empty_def merge_sample)
  have mem: "synth2 \<in> set [live2, live1, synth2]"
    by simp
  from merge_entry_live_or_distant_synthetic [OF out mem] out mem show ?thesis
    by blast
qed

text \<open>
  C2: for every category, the list returned by \<^verbatim>\<open>mergeRealAndMockData\<close> has
  \<open>min(10, max(liveCount, min(6, liveCount + syntheticAvailable)))\<close> entries, where
  \<open>liveCount\<close> is the number of live places of the category and \<open>syntheticAvailable\<close> the
  number of its synthetic places that the 0.002-degree proximity rule does not exclude,
  and the list is sorted ascending by distance.
\<close>

theorem merge_length_and_order:
  assumes "categoryKey \<in> set category_keys"
  shows "\<exists>out. map_of (mergeRealAndMockData realData mockData) categoryKey = Some out \<and>
           length out =
             min 10 (max (length (or_empty (realData categoryKey)))
                       (min 6 (length (or_empty (realData categoryKey)) +
                               length (synthetic_available (or_empty (realData categoryKey))
                                         (or_empty (mockData categoryKey)))))) \<and>
           sorted (map distance out)"
  using assms by (simp add: merge_lookup merge_category_length merge_category_sorted)

theorem merge_length_and_order_witness:
  "''cafe'' \<in> set category_keys \<and>
   (\<exists>out. map_of (mergeRealAndMockData [''cafe'' \<mapsto> [live1, live2]] [''cafe'' \<mapsto> [synth1, synth2]]) ''cafe''
            = Some out \<and>
          length out = 3 \<and> sorted (map distance out))"
proof -
  let ?realData = "[''cafe'' \<mapsto> [live1, live2]]" and ?mockData = "[''cafe'' \<mapsto> [synth1, synth2]]"
  from merge_length_and_order [OF cafe_key, of ?realData ?mockData]
  obtain out where out: "map_of (mergeRealAndMockData ?realData ?mockData) ''cafe'' = Some out"
    and len: "length out =
             min 10 (max (length (or_empty (?realData ''cafe'')))
                       (min 6 (length (or_empty (?realData ''cafe'')) +
                               length (synthetic_available (or_empty (?realData ''cafe''))
                                         (or_empty (?mockData ''cafe''))))))"
    and ord: "sorted (map distance out)"
    by blast
  from len have "length out = 3"
    by (simp add: or_empty_def synthetic_available_sample)
  with out ord cafe_key show ?thesis
    by blast
qed

section \<open>Properties of the categorisation\<close>

lemma find_None_exact:
  "\<not> matches_exact_rule tgs \<Longrightarrow>
   find (\<lambda>(categoryKey, cat). list_ex (tag_matches tgs) (cat_tags cat)) PLACE_CATEGORIES = None"
  by (auto simp: matches_exact_rule_def find_None_iff list_ex_iff)

lemma dict_get_None:
  "\<not> has_entry dict (Some v) \<Longrightarrow> v \<notin> set object_prototype_names \<Longrightarrow> dict_get dict v = None"
  by (auto simp: dict_get_def has_entry_def map_of_eq_None_iff split: option.splits)

lemma bakery_no_exact_rule: "\<not> matches_exact_rule [(''shop'', ''bakery'')]"
  by (simp add: matches_exact_rule_def PLACE_CATEGORIES_def tag_matches_def)

lemma bakery_no_fallback_rule: "\<not> matches_fallback_rule [(''shop'', ''bakery'')]"
  by (simp add: matches_fallback_rule_def has_entry_def amenityMappings_def shopMappings_def
      tourismMappings_def)

lemma bakery_category:
  "determineCategoryFromTags (Some [(''shop'', ''bakery'')]) = Some (Category ''shopping'')"
  by (simp add: determineCategoryFromTags_def PLACE_CATEGORIES_def tag_matches_def
      truthy_str_def or_blank_def dict_get_def shopMappings_def object_prototype_names_def)

text \<open>
  C7, as stated, fails: an element tagged \<^verbatim>\<open>shop=bakery\<close> matches no exact rule and no
  entry of a fallback dictionary, and is categorised as \<^verbatim>\<open>shopping\<close> (the default shop
  category of the source), not discarded.
\<close>

theorem unmatched_shop_counterexample:
  "\<not> matches_some_rule [(''shop'', ''bakery'')] \<and>
   determineCategoryFromTags (Some [(''shop'', ''bakery'')]) \<noteq> None"
  by (simp add: matches_some_rule_def bakery_no_exact_rule bakery_no_fallback_rule bakery_category)

text \<open>
  C7, amended: a raw element without tags is discarded; a raw element whose tags match no
  rule (no exact key=value match against the category table, no entry of the
  amenity/shop/tourism fallback dictionaries), and whose amenity, shop and tourism values
  are not names inherited from \<^verbatim>\<open>Object.prototype\<close>, is discarded
  (\<^verbatim>\<open>determineCategoryFromTags\<close> returns \<^verbatim>\<open>null\<close>) when it has no non-empty \<^verbatim>\<open>shop\<close> tag,
  and is put in the category \<^verbatim>\<open>shopping\<close> when it has one.
\<close>

theorem unmatched_discarded_unless_shop:
  assumes "\<not> matches_some_rule tgs" and "plain_values tgs"
  shows "determineCategoryFromTags None = None \<and>
         determineCategoryFromTags (Some tgs) =
           (if truthy_str (map_of tgs ''shop'') then Some (Category ''shopping'') else None)"
proof -
  from assms(1) have ex: "\<not> matches_exact_rule tgs" and fb: "\<not> matches_fallback_rule tgs"
    by (simp_all add: matches_some_rule_def)
  have a: "truthy_str (map_of tgs ''amenity'') \<Longrightarrow>
           dict_get amenityMappings (or_blank (map_of tgs ''amenity'')) = None"
    using fb assms(2)
    by (auto simp: matches_fallback_rule_def plain_values_def truthy_str_def or_blank_def
        intro!: dict_get_None split: option.splits)
  have s: "truthy_str (map_of tgs ''shop'') \<Longrightarrow>
           dict_get shopMappings (or_blank (map_of tgs ''shop'')) = None"
    using fb assms(2)
    by (auto simp: matches_fallback_rule_def plain_values_def truthy_str_def or_blank_def
        intro!: dict_get_None split: option.splits)
  have t: "truthy_str (map_of tgs ''tourism'') \<Longrightarrow>
           dict_get tourismMappings (or_blank (map_of tgs ''tourism'')) = None"
    using fb assms(2)
    by (auto simp: matches_fallback_rule_def plain_values_def truthy_str_def or_blank_def
        intro!: dict_get_None split: option.splits)
  show ?thesis
    using a s t by (simp add: determineCategoryFromTags_def find_None_exact [OF ex])
qed

lemma bus_stop_no_rule: "\<not> matches_some_rule [(''highway'', ''bus_stop'')]"
  by (simp add: matches_some_rule_def matches_exact_rule_def PLACE_CATEGORIES_def tag_matches_def
      matches_fallback_rule_def has_entry_def)

lemma bus_stop_plain: "plain_values [(''highway'', ''bus_stop'')]"
  by (simp add: plain_values_def)

theorem unmatched_discarded_unless_shop_witness:
  "\<not> matches_some_rule [(''highway'', ''bus_stop'')] \<and> plain_values [(''highway'', ''bus_stop'')] \<and>
   determineCategoryFromTags None = None \<and>
   determineCategoryFromTags (Some [(''highway'', ''bus_stop'')]) = None"
  using unmatched_discarded_unless_shop [OF bus_stop_no_rule bus_stop_plain]
    bus_stop_no_rule bus_stop_plain
  by (simp add: truthy_str_def)

section \<open>Properties of the location cascade\<close>

lemma final_shape:
  "(\<exists>c s'. sensor s tierC = (Inr c, s') \<and>
       fst (attemptFinalGPS sensor s) = [Requested tierC, SuccessCallback c] \<and>
       resolved_with c (snd (attemptFinalGPS sensor s))) \<or>
   (\<exists>e s'. sensor s tierC = (Inl e, s') \<and>
       attemptFinalGPS sensor s = ([Requested tierC, ErrorCallback e], Inl (final_error e)))"
  by (cases "sensor s tierC")
    (auto simp: attemptFinalGPS_def resolved_with_def fix_of_def split: sum.splits)

lemma second_trace:
  assumes "sensor s tierA = (Inl e1, s1)"
  shows "cascade_trace sensor s
           ([Requested tierA, ErrorCallback e1] @ fst (attemptSecondTry sensor s1))
           (snd (attemptSecondTry sensor s1))"
proof (cases "sensor s1 tierB")
  case (Pair r s2)
  show ?thesis
  proof (cases r)
    case (Inr c)
    with Pair assms show ?thesis
      by (simp add: cascade_trace_def attemptSecondTry_def resolved_with_def fix_of_def)
  next
    case (Inl e2)
    from final_shape [of sensor s2] Pair Inl assms show ?thesis
      by (auto simp: cascade_trace_def attemptSecondTry_def split_beta)
  qed
qed

lemma high_trace:
  "cascade_trace sensor s (fst (attemptHighAccuracy sensor s)) (snd (attemptHighAccuracy sensor s))"
proof (cases "sensor s tierA")
  case (Pair r s1)
  show ?thesis
  proof (cases r)
    case (Inr c)
    with Pair show ?thesis
      by (simp add: cascade_trace_def attemptHighAccuracy_def resolved_with_def fix_of_def)
  next
    case (Inl e1)
    with Pair have a: "sensor s tierA = (Inl e1, s1)"
      by simp
    from second_trace [of sensor s e1 s1, OF a] a show ?thesis
      by (simp add: attemptHighAccuracy_def split_beta)
  qed
qed

lemma sample_supported: "supported (checkLocationSupport sample_browser)"
  by (simp add: checkLocationSupport_def sample_browser_def)

lemma http_unsupported: "\<not> supported (checkLocationSupport http_browser)"
  by (simp add: checkLocationSupport_def http_browser_def)

lemma no_ip_run:
  "tryIPLocation rt no_ip_network =
     ([GET ''https://ipapi.co/json/'' [], GET ''https://ipinfo.io/json'' [],
       GET ''http://ip-api.com/json/'' []],
      Inl (Error ''Unable to determine your location. Please enter your address manually for accurate results.''))"
  by (simp add: tryIPLocation_def ip_services_def no_ip_network_def Let_def)

text \<open>
  C3, as stated, fails: in a browser that has the sensor API, on a page served over plain
  HTTP from a host other than localhost, \<^verbatim>\<open>getCurrentLocation\<close> attempts no tier at
  all; it asks the three IP services and, with none of them answering, rejects.
\<close>

theorem cascade_http_counterexample:
  "has_geolocation http_browser \<and>
   getCurrentLocation sample_runtime http_browser no_ip_network instant_sensor 0 =
     ([],
      [GET ''https://ipapi.co/json/'' [], GET ''https://ipinfo.io/json'' [],
       GET ''http://ip-api.com/json/'' []],
      Inl (Error ''Unable to determine your location. Please enter your address manually for accurate results.''))"
  by (simp add: getCurrentLocation_def Let_def http_unsupported no_ip_run)
    (simp add: http_browser_def)

text \<open>
  C3, amended: whenever \<^verbatim>\<open>checkLocationSupport\<close> reports support (the sensor API is
  present and the page is served over HTTPS or from localhost), \<^verbatim>\<open>getCurrentLocation\<close>
  issues no request to the IP services and attempts tier A (high accuracy, 5 s) first; it
  attempts tier B (low accuracy, 3 s) exactly when the sensor answers tier A with an error,
  behind the error callback of tier A, and tier C (high accuracy, 15 s) exactly when the
  sensor answers tier B with an error, behind the error callback of tier B; it resolves
  with the position of the first tier that succeeds, and rejects only when tier C fails
  too; no tier is attempted twice, and none is started before the error callback of the
  tier before it.
\<close>

theorem cascade_order:
  assumes "supported (checkLocationSupport env)"
  shows "\<exists>events outcome.
           getCurrentLocation rt env fetch sensor s = (events, [], outcome) \<and>
           cascade_trace sensor s events outcome \<and>
           tierA = \<lparr>enableHighAccuracy = True, timeout = 5000, maximumAge = 0\<rparr> \<and>
           tierB = \<lparr>enableHighAccuracy = False, timeout = 3000, maximumAge = 0\<rparr> \<and>
           tierC = \<lparr>enableHighAccuracy = True, timeout = 15000, maximumAge = 0\<rparr>"
  using assms high_trace [of sensor s]
  by (simp add: getCurrentLocation_def Let_def split_beta tierA_def tierB_def tierC_def)

lemma slow_run:
  "getCurrentLocation rt sample_browser fetch slow_sensor 0 =
     ([Requested tierA, ErrorCallback \<lparr>code = 3, message = ''Timeout expired''\<rparr>,
       Requested tierB, ErrorCallback \<lparr>code = 3, message = ''Timeout expired''\<rparr>,
       Requested tierC, SuccessCallback \<lparr>latitude = 28.6139, longitude = 77.2090, accuracy = 35\<rparr>],
      [],
      Inr \<lparr>loc_lat = 28.6139, loc_lng = 77.2090, loc_accuracy = 35, loc_method = ''gps_final_attempt'',
           loc_city = None\<rparr>)"
  by (simp add: getCurrentLocation_def Let_def sample_supported attemptHighAccuracy_def
      attemptSecondTry_def attemptFinalGPS_def slow_sensor_def fix_of_def)

lemma instant_run:
  "getCurrentLocation rt sample_browser fetch instant_sensor 0 =
     ([Requested tierA, SuccessCallback \<lparr>latitude = 28.6139, longitude = 77.2090, accuracy = 12\<rparr>],
      [],
      Inr \<lparr>loc_lat = 28.6139, loc_lng = 77.2090, loc_accuracy = 12, loc_method = ''high_accuracy_gps'',
           loc_city = None\<rparr>)"
  by (simp add: getCurrentLocation_def Let_def sample_supported attemptHighAccuracy_def
      instant_sensor_def fix_of_def)

theorem cascade_order_witness:
  "supported (checkLocationSupport sample_browser) \<and>
   (\<exists>events outcome.
      getCurrentLocation sample_runtime sample_browser no_ip_network slow_sensor 0 = (events, [], outcome) \<and>
      cascade_trace slow_sensor 0 events outcome \<and>
      events = [Requested tierA, ErrorCallback \<lparr>code = 3, message = ''Timeout expired''\<rparr>,
                Requested tierB, ErrorCallback \<lparr>code = 3, message = ''Timeout expired''\<rparr>,
                Requested tierC,
                SuccessCallback \<lparr>latitude = 28.6139, longitude = 77.2090, accuracy = 35\<rparr>]) \<and>
   (\<exists>events outcome.
      getCurrentLocation sample_runtime sample_browser no_ip_network instant_sensor 0 = (events, [], outcome) \<and>
      cascade_trace instant_sensor 0 events outcome \<and>
      events = [Requested tierA,
                SuccessCallback \<lparr>latitude = 28.6139, longitude = 77.2090, accuracy = 12\<rparr>])"
  using cascade_order [OF sample_supported, of sample_runtime no_ip_network slow_sensor 0]
    cascade_order [OF sample_supported, of sample_runtime no_ip_network instant_sensor 0]
    sample_supported
  by (auto simp: slow_run instant_run)

section \<open>Properties of the geocoding adapter\<close>

lemma geocode_requests: "fst (geocodeAddress rt fetch addr) = [geocode_request rt addr]"
  by (simp add: geocodeAddress_def geocode_request_def Let_def)

lemma geocode_not_found:
  assumes "fetch (geocode_request rt addr) = Response True status (Some data)"
    and "data = None \<or> data = Some []"
  shows "snd (geocodeAddress rt fetch addr) = Inl (Error ''Address not found'')"
  using assms by (auto simp: geocodeAddress_def geocode_request_def Let_def)

lemma blank_samples: "blank []" "blank ''   ''"
  by (simp_all add: blank_def is_space_def)

text \<open>
  C4, as stated, fails: \<^verbatim>\<open>geocodeAddress\<close> has no guard on its input. For the empty
  string and for three blanks it issues its request, and it resolves when the provider
  answers with a result.
\<close>

theorem geocode_blank_counterexample:
  "blank [] \<and> blank ''   '' \<and>
   fst (geocodeAddress sample_runtime answering_network []) \<noteq> [] \<and>
   fst (geocodeAddress sample_runtime answering_network ''   '') \<noteq> [] \<and>
   snd (geocodeAddress sample_runtime answering_network []) \<noteq> Inl (Error ''Address not found'')"
  by (simp add: blank_samples geocode_requests geocodeAddress_def answering_network_def Let_def)

text \<open>
  C4, amended: for every input string, empty and blank ones included, \<^verbatim>\<open>geocodeAddress\<close>
  issues exactly one request, the search for the encoded input; it fails with the error
  \<^verbatim>\<open>Address not found\<close> when the provider answers that request with success and no
  result.
\<close>

theorem geocode_always_asks_provider:
  "fst (geocodeAddress rt fetch addr) = [geocode_request rt addr] \<and>
   (fetch (geocode_request rt addr) = Response True status (Some data) \<and> (data = None \<or> data = Some [])
      \<longrightarrow> snd (geocodeAddress rt fetch addr) = Inl (Error ''Address not found''))"
  using geocode_requests geocode_not_found by blast

theorem geocode_always_asks_provider_witness:
  "fst (geocodeAddress sample_runtime empty_network []) = [geocode_request sample_runtime []] \<and>
   empty_network (geocode_request sample_runtime []) = Response True 200 (Some (Some [])) \<and>
   snd (geocodeAddress sample_runtime empty_network []) = Inl (Error ''Address not found'')"
  using geocode_always_asks_provider [of sample_runtime empty_network "[]" 200 "Some []"]
  by (simp add: empty_network_def)

section \<open>Properties of the suggestions\<close>

text \<open>
  C10: for every query that is \<^verbatim>\<open>null\<close>, \<^verbatim>\<open>undefined\<close>, empty or shorter than two
  characters, \<^verbatim>\<open>getPlaceSuggestions\<close> returns the empty list and issues no request,
  whatever the limit and the \<^verbatim>\<open>near\<close> argument.
\<close>

theorem suggestions_guard:
  assumes "query = None \<or> (\<exists>q. query = Some q \<and> length q < 2)"
  shows "getPlaceSuggestions rt fetch query limit near = ([], [])"
proof -
  from assms have "\<not> truthy_str query \<or> length (or_blank query) < 2"
    by (auto simp: truthy_str_def or_blank_def)
  then show ?thesis
    unfolding getPlaceSuggestions_def by (rule if_P)
qed

theorem suggestions_guard_witness:
  "(Some ''a'' = None \<or> (\<exists>q. Some ''a'' = Some q \<and> length q < 2)) \<and>
   getPlaceSuggestions sample_runtime answering_network (Some ''a'') 15 None = ([], []) \<and>
   getPlaceSuggestions sample_runtime answering_network None 15 None = ([], [])"
proof -
  have h1: "Some ''a'' = None \<or> (\<exists>q. Some ''a'' = Some q \<and> length q < 2)"
    by simp
  have h2: "(None :: string option) = None \<or> (\<exists>q. None = Some q \<and> length q < 2)"
    by simp
  from suggestions_guard [OF h1] suggestions_guard [OF h2] h1 show ?thesis
    by blast
qed

section \<open>Properties of the route engine\<close>

lemma mock_route_source:
  "route_source (fst (generateEnhancedMockRoute rnd k start dest mode)) = ''enhanced_mock''"
  by (simp add: generateEnhancedMockRoute_def Let_def)

lemma mock_route_steps:
  "\<exists>depart rest arrive.
     route_steps (fst (generateEnhancedMockRoute rnd k start dest mode)) = depart # rest @ [arrive] \<and>
     maneuver depart = ''depart'' \<and> maneuver arrive = ''arrive''"
proof -
  let ?r = "fst (generateEnhancedMockRoute rnd k start dest mode)"
  obtain d i m f a where steps: "route_steps ?r = [d, i] @ m @ [f, a]"
    and d: "maneuver d = ''depart''" and a: "maneuver a = ''arrive''"
    by (simp add: generateEnhancedMockRoute_def Let_def)
  from steps have "route_steps ?r = d # (i # m @ [f]) @ [a]"
    by simp
  with d a show ?thesis
    by blast
qed

lemma both_fail_route:
  assumes "provider_fails openrouteservice" and "provider_fails osrm"
  shows "fst (calculateRoute openrouteservice osrm rnd k mode start dest) =
         fst (generateEnhancedMockRoute rnd k start dest mode)"
  using assms
  by (auto simp: calculateRoute_def fetchRealRoute_def provider_fails_def split_beta
      split: attempt.splits)

lemma sample_fail:
  "provider_fails (Threw (Error ''OpenRouteService failed''))" "provider_fails (Threw (Error ''OSRM failed''))"
  "provider_fails NoRoute"
  by (simp_all add: provider_fails_def)

text \<open>
  C8, as stated, fails: with both providers failing, the route from (28.6, 77.2) to
  (28.7, 77.3) on foot carries the tag \<^verbatim>\<open>enhanced_mock\<close>, not \<^verbatim>\<open>fallback\<close>. The page
  writes \<^verbatim>\<open>fallback\<close> only in the \<^verbatim>\<open>catch\<close> of \<^verbatim>\<open>calculateRoute\<close>, which a failure of
  the providers does not reach: \<^verbatim>\<open>fetchRealRoute\<close> handles it and returns the synthesized
  route.
\<close>

theorem fallback_tag_counterexample:
  "provider_fails (Threw (Error ''OpenRouteService failed'')) \<and>
   provider_fails (Threw (Error ''OSRM failed'')) \<and>
   route_source (fst (calculateRoute (Threw (Error ''OpenRouteService failed''))
                        (Threw (Error ''OSRM failed'')) (\<lambda>i. 0) 0 ''walking'' sample_start sample_dest))
     \<noteq> ''fallback''"
  by (simp add: sample_fail both_fail_route mock_route_source)

text \<open>
  C8, amended: when both live routing providers fail, the route computed for any start,
  end and mode carries the source tag \<^verbatim>\<open>enhanced_mock\<close>, its list of steps is not empty,
  its first step has the maneuver \<^verbatim>\<open>depart\<close> and its last step the maneuver \<^verbatim>\<open>arrive\<close>.
\<close>

theorem fallback_route_shape:
  assumes "provider_fails openrouteservice" and "provider_fails osrm"
  shows "route_source (fst (calculateRoute openrouteservice osrm rnd k mode start dest)) = ''enhanced_mock'' \<and>
         route_steps (fst (calculateRoute openrouteservice osrm rnd k mode start dest)) \<noteq> [] \<and>
         maneuver (hd (route_steps (fst (calculateRoute openrouteservice osrm rnd k mode start dest)))) = ''depart'' \<and>
         maneuver (last (route_steps (fst (calculateRoute openrouteservice osrm rnd k mode start dest)))) = ''arrive''"
proof -
  let ?r = "fst (calculateRoute openrouteservice osrm rnd k mode start dest)"
  have eq: "?r = fst (generateEnhancedMockRoute rnd k start dest mode)"
    using assms by (rule both_fail_route)
  from mock_route_steps [of rnd k start dest mode] obtain depart rest arrive
    where "route_steps ?r = depart # rest @ [arrive]"
      and "maneuver depart = ''depart''" and "maneuver arrive = ''arrive''"
    unfolding eq by blast
  then show ?thesis
    by (simp add: eq mock_route_source)
qed

theorem fallback_route_shape_witness:
  "provider_fails (Threw (Error ''OpenRouteService failed'')) \<and> provider_fails NoRoute \<and>
   route_source (fst (calculateRoute (Threw (Error ''OpenRouteService failed'')) NoRoute (\<lambda>i. 0) 0
                        ''walking'' sample_start sample_dest)) = ''enhanced_mock'' \<and>
   route_steps (fst (calculateRoute (Threw (Error ''OpenRouteService failed'')) NoRoute (\<lambda>i. 0) 0
                        ''walking'' sample_start sample_dest)) \<noteq> [] \<and>
   maneuver (hd (route_steps (fst (calculateRoute (Threw (Error ''OpenRouteService failed'')) NoRoute
                        (\<lambda>i. 0) 0 ''walking'' sample_start sample_dest)))) = ''depart'' \<and>
   maneuver (last (route_steps (fst (calculateRoute (Threw (Error ''OpenRouteService failed'')) NoRoute
                        (\<lambda>i. 0) 0 ''walking'' sample_start sample_dest)))) = ''arrive''"
  using fallback_route_shape [OF sample_fail(1) sample_fail(3), of "\<lambda>i. 0" 0 "''walking''" sample_start sample_dest]
    sample_fail
  by simp

section \<open>Properties of the search for nearby places\<close>

lemma generate_categories_keys:
  "map fst (generate_categories rnd k la lo radius areaInfo cats) = map fst cats"
  by (induction cats arbitrary: k) (auto simp: split_beta Let_def)

lemma refine_categories_keys: "map fst (refine_categories rt env n ps) = map fst ps"
  by (induction ps arbitrary: n) (auto simp: split_beta Let_def)

lemma verified_resolves:
  "\<exists>verifiedPlaces. generateVerifiedMockPlaces rt env la lo radius = Inr verifiedPlaces \<and>
     map fst verifiedPlaces = category_keys"
  by (simp add: generateVerifiedMockPlaces_def Let_def refineVerifiedMockAddresses_def
      refine_categories_keys generate_categories_keys category_keys_def)

lemma merge_keys: "map fst (mergeRealAndMockData realData mockData) = category_keys"
  by (simp add: mergeRealAndMockData_def comp_def)

lemma search_resolves:
  "\<exists>result. fetchNearbyPlaces rt env la lo radius = Inr result \<and> map fst result = category_keys"
proof -
  from verified_resolves [of rt env la lo radius] obtain verifiedPlaces
    where v: "generateVerifiedMockPlaces rt env la lo radius = Inr verifiedPlaces"
      and k: "map fst verifiedPlaces = category_keys"
    by blast
  show ?thesis
    by (simp add: fetchNearbyPlaces_def Let_def v k merge_keys)
qed

lemma try_servers_all_fail:
  assumes "list_all (mirror_fails rt fetch la lo radius) servers"
  shows "try_servers rt fetch rnd la lo radius st servers = st"
  using assms
proof (induction servers)
  case Nil
  then show ?case by simp
next
  case (Cons serverUrl servers)
  then have f: "mirror_fails rt fetch la lo radius serverUrl"
    and rest: "try_servers rt fetch rnd la lo radius st servers = st"
    by simp_all
  from f show ?case
    by (auto simp: mirror_fails_def rest split: reply.splits option.splits bool.splits)
qed

lemma total_empty: "totalRealPlaces (map (\<lambda>key. (key, [])) keys) = 0"
  by (induction keys) (simp_all add: totalRealPlaces_def)

lemma all_fail_empty:
  assumes "list_all (mirror_fails rt fetch la lo radius) OVERPASS_SERVERS"
  shows "fetchRealPlacesFromOverpass rt fetch rnd la lo radius = map (\<lambda>key. (key, [])) category_keys"
  using try_servers_all_fail [OF assms] by (simp add: fetchRealPlacesFromOverpass_def)

lemma offline_fails:
  "list_all (mirror_fails rt (overpass offline_env) la lo radius) OVERPASS_SERVERS"
  by (simp add: mirror_fails_def offline_env_def OVERPASS_SERVERS_def)

text \<open>
  C9: for every centre and radius \<^verbatim>\<open>fetchNearbyPlaces\<close> resolves, with a result keyed by
  the categories of the table, and never rejects; when the timer fires before the live
  search settles, or every live mirror fails or is empty, it resolves as the synthetic
  (verified mock) search does.
\<close>

theorem search_never_rejects:
  "(\<exists>result. fetchNearbyPlaces rt env la lo radius = Inr result \<and> map fst result = category_keys) \<and>
   (overpass_timer_first env \<or> list_all (mirror_fails rt (overpass env) la lo radius) OVERPASS_SERVERS
      \<longrightarrow> fetchNearbyPlaces rt env la lo radius = generateVerifiedMockPlaces rt env la lo radius)"
proof (intro conjI impI)
  show "\<exists>result. fetchNearbyPlaces rt env la lo radius = Inr result \<and> map fst result = category_keys"
    by (rule search_resolves)
next
  assume "overpass_timer_first env \<or>
          list_all (mirror_fails rt (overpass env) la lo radius) OVERPASS_SERVERS"
  then show "fetchNearbyPlaces rt env la lo radius = generateVerifiedMockPlaces rt env la lo radius"
  proof
    assume "overpass_timer_first env"
    then show ?thesis by (simp add: fetchNearbyPlaces_def Let_def)
  next
    assume "list_all (mirror_fails rt (overpass env) la lo radius) OVERPASS_SERVERS"
    then show ?thesis
      by (simp add: fetchNearbyPlaces_def Let_def all_fail_empty total_empty)
  qed
qed

theorem search_never_rejects_witness:
  "(\<exists>result. fetchNearbyPlaces sample_runtime offline_env 28.6139 77.2090 10 = Inr result \<and>
      map fst result = category_keys) \<and>
   (overpass_timer_first offline_env \<or>
    list_all (mirror_fails sample_runtime (overpass offline_env) 28.6139 77.2090 10) OVERPASS_SERVERS) \<and>
   fetchNearbyPlaces sample_runtime offline_env 28.6139 77.2090 10 =
     generateVerifiedMockPlaces sample_runtime offline_env 28.6139 77.2090 10"
  using search_never_rejects [of sample_runtime offline_env "28.6139" "77.2090" 10]
    offline_fails [of sample_runtime "28.6139" "77.2090" 10]
  by blast

end
